theory Spec2Isabelle
  imports Complex_Main
begin

section \<open>JavaScript values used by \<open>serialize\<close>\<close>

text \<open>
  The source is \<^verbatim>\<open>src/serialize.js\<close>. It is dynamically typed: the options
  \<^verbatim>\<open>inGamut\<close>, \<^verbatim>\<open>alpha\<close>, \<^verbatim>\<open>precision\<close> and \<^verbatim>\<open>coords\<close>, and the format's
  \<^verbatim>\<open>toGamut\<close>, \<^verbatim>\<open>alpha\<close> and \<^verbatim>\<open>commas\<close> fields, are tested for truthiness,
  compared with \<^verbatim>\<open>===\<close> and inspected with \<^verbatim>\<open>typeof\<close>. They are modelled by a
  datatype of JavaScript values. A number is a \<open>real\<close> (a finite double; NaN and the
  infinities are left out); an object literal is an association list of its properties.
\<close>

datatype jsval =
    JUndefined
  | JNull
  | JBool bool
  | JNum real
  | JStr string
  | JObj "(string \<times> jsval) list"

text \<open>ToBoolean: \<^verbatim>\<open>undefined\<close>, \<^verbatim>\<open>null\<close>, \<^verbatim>\<open>false\<close>, \<^verbatim>\<open>0\<close> and \<^verbatim>\<open>""\<close> are falsy.\<close>

fun truthy :: "jsval \<Rightarrow> bool" where
  "truthy JUndefined = False"
| "truthy JNull = False"
| "truthy (JBool b) = b"
| "truthy (JNum n) = (n \<noteq> 0)"
| "truthy (JStr s) = (s \<noteq> [])"
| "truthy (JObj kvs) = True"

text \<open>\<^verbatim>\<open>a || b\<close> is \<^verbatim>\<open>a\<close> when \<^verbatim>\<open>a\<close> is truthy and \<^verbatim>\<open>b\<close> otherwise.\<close>

definition js_or :: "jsval \<Rightarrow> jsval \<Rightarrow> jsval" where
  "js_or a b = (if truthy a then a else b)"

text \<open>\<^verbatim>\<open>typeof\<close>; note \<^verbatim>\<open>typeof null === "object"\<close>.\<close>

fun js_typeof :: "jsval \<Rightarrow> string" where
  "js_typeof JUndefined = ''undefined''"
| "js_typeof JNull = ''object''"
| "js_typeof (JBool b) = ''boolean''"
| "js_typeof (JNum n) = ''number''"
| "js_typeof (JStr s) = ''string''"
| "js_typeof (JObj kvs) = ''object''"

text \<open>
  Optional chaining \<^verbatim>\<open>v?.k\<close> for the property names \<^verbatim>\<open>type\<close> and \<^verbatim>\<open>include\<close>:
  \<^verbatim>\<open>undefined\<close> on a nullish value, the property of an object (or \<^verbatim>\<open>undefined\<close> when
  it has none), and \<^verbatim>\<open>undefined\<close> on a primitive, which has neither property.
\<close>

fun opt_chain :: "jsval \<Rightarrow> string \<Rightarrow> jsval" where
  "opt_chain (JObj kvs) k = (case map_of kvs k of Some v \<Rightarrow> v | None \<Rightarrow> JUndefined)"
| "opt_chain v k = JUndefined"

text \<open>\<^verbatim>\<open>a ?? b\<close> is \<^verbatim>\<open>b\<close> exactly when \<^verbatim>\<open>a\<close> is \<^verbatim>\<open>undefined\<close> or \<^verbatim>\<open>null\<close>.\<close>

definition nullish :: "jsval \<Rightarrow> jsval \<Rightarrow> jsval" where
  "nullish a b = (if a = JUndefined \<or> a = JNull then b else a)"

text \<open>Truthiness of a string-or-undefined property (\<open>None\<close> is \<^verbatim>\<open>undefined\<close>).\<close>

definition str_truthy :: "string option \<Rightarrow> bool" where
  "str_truthy s = (case s of None \<Rightarrow> False | Some t \<Rightarrow> t \<noteq> [])"

text \<open>\<^verbatim>\<open>Array.prototype.join\<close> on an array of strings.\<close>

fun join :: "string \<Rightarrow> string list \<Rightarrow> string" where
  "join sep [] = []"
| "join sep [x] = x"
| "join sep (x # y # ys) = x @ sep @ join sep (y # ys)"

section \<open>Objects, the store and thrown errors\<close>

text \<open>
  A color is a JavaScript object \<^verbatim>\<open>{space, coords, alpha}\<close> (\<^verbatim>\<open>PlainColorObject\<close> in
  \<^verbatim>\<open>color.d.ts\<close>) whose \<^verbatim>\<open>coords\<close> is a reference to an array. Both are mutable and
  can be shared, so they live in a store: an object or an array is an address, and
  \<open>fresh\<close> is the next address an allocation returns. A color space is a registered
  object compared by identity (\<^verbatim>\<open>format.space !== color.space\<close>) and is modelled by
  its reference.
\<close>

type_synonym addr = nat
type_synonym space_ref = nat

record color_obj =
  space :: space_ref
  coords :: addr
  alpha :: real

text \<open>
  A caller may also hand over an object that is not yet of that shape (\<^verbatim>\<open>ColorObject\<close>
  in \<^verbatim>\<open>color.d.ts\<close>): the space is in \<^verbatim>\<open>space\<close> or in \<^verbatim>\<open>spaceId\<close>, as a string
  or as a color space, and \<^verbatim>\<open>alpha\<close> may be \<^verbatim>\<open>undefined\<close>.
\<close>

datatype space_prop = SpaceName string | SpaceObject space_ref

record loose_color =
  l_spaceId :: "space_prop option"
  l_space :: "space_prop option"
  l_coords :: addr
  l_alpha :: "real option"

text \<open>
  The object at an address \<open>a\<close> is the \<^verbatim>\<open>ColorObject\<close> \<open>o\<close> when
  \<open>loose h a = Some o\<close>, and the \<^verbatim>\<open>PlainColorObject\<close> \<open>colors h a\<close> when
  \<open>loose h a = None\<close>. \<open>serialize\<close> reads \<^verbatim>\<open>color.space\<close>, \<^verbatim>\<open>color.coords\<close> and
  \<^verbatim>\<open>color.alpha\<close> of what \<^verbatim>\<open>getColor\<close> has returned, a \<^verbatim>\<open>PlainColorObject\<close>.
\<close>

record heap =
  colors :: "addr \<Rightarrow> color_obj"
  arrays :: "addr \<Rightarrow> jsval list"
  fresh :: addr
  loose :: "addr \<Rightarrow> loose_color option"

text \<open>An error object: the name of its constructor and its message.\<close>

datatype js_error = JsError (err_name: string) (err_message: string)

text \<open>
  A computation runs on the store and either returns a value or throws; the store it
  leaves behind is returned in both cases.
\<close>

type_synonym 'a js = "heap \<Rightarrow> (js_error + 'a) \<times> heap"

definition js_return :: "'a \<Rightarrow> 'a js" where
  "js_return x = (\<lambda>h. (Inr x, h))"

definition js_throw :: "js_error \<Rightarrow> 'a js" where
  "js_throw e = (\<lambda>h. (Inl e, h))"

definition js_bind :: "'a js \<Rightarrow> ('a \<Rightarrow> 'b js) \<Rightarrow> 'b js" where
  "js_bind m f = (\<lambda>h. case m h of (Inl e, h') \<Rightarrow> (Inl e, h') | (Inr x, h') \<Rightarrow> f x h')"

text \<open>Reading a field of an object in the current store.\<close>

definition js_read :: "(heap \<Rightarrow> 'a) \<Rightarrow> 'a js" where
  "js_read g = (\<lambda>h. (Inr (g h), h))"

text \<open>\<^verbatim>\<open>a.slice()\<close>: a new array with the elements of the array at \<open>a\<close>.\<close>

definition slice :: "addr \<Rightarrow> addr js" where
  "slice a = (\<lambda>h. (Inr (fresh h),
     h\<lparr>arrays := (arrays h)(fresh h := arrays h a), fresh := Suc (fresh h)\<rparr>))"

section \<open>Options, formats and the collaborators of \<open>serialize\<close>\<close>

text \<open>
  The options object of a call. A field that is \<open>JUndefined\<close> (\<open>None\<close> for the
  format id, a string) is a property the caller left out.
\<close>

record options =
  opt_precision :: jsval
  opt_format :: "string option"
  opt_inGamut :: jsval
  opt_coords :: jsval
  opt_alpha :: jsval

text \<open>
  A format object, with the fields \<open>serialize\<close> reads. \<open>f_serialize\<close> is the
  optional hook of a custom format and \<open>f_serializeCoords\<close> the function that renders
  the coordinates of a functional format; \<open>serialize\<close> treats an element of the
  array it returns as a string, and the array as a new one, so that \<^verbatim>\<open>unshift\<close> on it
  (line 73) is an operation on a list. Both receive the array of working coordinates
  by reference and run on the store.
\<close>

record format =
  f_type :: "string option"
  f_name :: "string option"
  f_id :: "string option"
  f_ids :: "string list option"
  f_space :: "space_ref option"
  f_toGamut :: jsval
  f_alpha :: jsval
  f_commas :: jsval
  f_serialize :: "(addr \<Rightarrow> real \<Rightarrow> options \<Rightarrow> string js) option"
  f_serializeCoords :: "addr \<Rightarrow> jsval \<Rightarrow> jsval \<Rightarrow> string list js"

text \<open>What \<open>getColor\<close> accepts: a string to parse, or a reference to a color object.\<close>

datatype color_input = ColorString string | ColorRef addr

text \<open>
  The modules \<^verbatim>\<open>serialize.js\<close> imports are not part of the source at hand
  (\<^verbatim>\<open>util.js\<close>, \<^verbatim>\<open>space.js\<close>, \<^verbatim>\<open>defaults.js\<close>, \<^verbatim>\<open>getColor.js\<close>, \<^verbatim>\<open>to.js\<close>,
  \<^verbatim>\<open>inGamut.js\<close>, \<^verbatim>\<open>toGamut.js\<close>, \<^verbatim>\<open>clone.js\<close>). They are parameters of the
  model. A function that is handed an object runs on the store and may throw; the
  registry lookups and the number formatter are handed strings and numbers only and
  are functions of their arguments. \<open>getFormat\<close>, \<open>cssId\<close> and \<open>space_id\<close> are
  the function and the two properties of a color space that \<open>serialize\<close> uses.
  \<open>numberToString\<close> is the conversion of a number to a string in a template literal
  and \<open>multiply\<close> the product of two doubles.
\<close>

record env =
  defaults_precision :: jsval
  DEFAULT_FORMAT :: format
  getColor :: "color_input \<Rightarrow> addr js"
  getFormat :: "space_ref \<Rightarrow> string \<Rightarrow> format option"
  findFormat :: "string \<Rightarrow> format option"
  cssId :: "space_ref \<Rightarrow> string option"
  space_id :: "space_ref \<Rightarrow> string"
  to :: "addr \<Rightarrow> space_ref \<Rightarrow> addr js"
  checkInGamut :: "addr \<Rightarrow> bool js"
  toGamut :: "addr \<Rightarrow> jsval \<Rightarrow> addr js"
  clone :: "addr \<Rightarrow> addr js"
  serializeNumber :: "real \<Rightarrow> jsval \<Rightarrow> string option \<Rightarrow> string"
  numberToString :: "real \<Rightarrow> string"
  multiply :: "real \<Rightarrow> real \<Rightarrow> real"

section \<open>\<open>serialize\<close>\<close>

text \<open>
  Lines 32 to 35: the format of that id in the color's own space, else one found in
  the registry, else the space's \<^verbatim>\<open>"default"\<close> format, else \<^verbatim>\<open>DEFAULT_FORMAT\<close>.
\<close>

definition resolveFormat :: "env \<Rightarrow> space_ref \<Rightarrow> string \<Rightarrow> format" where
  "resolveFormat env sp fid =
     (case getFormat env sp fid of Some f \<Rightarrow> f
      | None \<Rightarrow> (case findFormat env fid of Some f \<Rightarrow> f
      | None \<Rightarrow> (case getFormat env sp ''default'' of Some f \<Rightarrow> f
      | None \<Rightarrow> DEFAULT_FORMAT env)))"

text \<open>Lines 37 to 41: convert when the format belongs to another space.\<close>

definition convertToFormatSpace :: "env \<Rightarrow> format \<Rightarrow> space_ref \<Rightarrow> addr \<Rightarrow> addr js" where
  "convertToFormatSpace env fmt sp color =
     (case f_space fmt of
        None \<Rightarrow> js_return color
      | Some fsp \<Rightarrow> if fsp \<noteq> sp then to env color fsp else js_return color)"

text \<open>Line 49: \<^verbatim>\<open>inGamut ||= format.toGamut\<close>.\<close>

definition gamutFlag :: "jsval \<Rightarrow> format \<Rightarrow> jsval" where
  "gamutFlag inGamut fmt = js_or inGamut (f_toGamut fmt)"

text \<open>
  Lines 51 to 54. \<^verbatim>\<open>&&\<close> does not call \<^verbatim>\<open>checkInGamut\<close> when the flag is falsy;
  \<^verbatim>\<open>toGamut\<close> is handed the clone, and then the \<^verbatim>\<open>coords\<close> of its result are read.
\<close>

definition mapToGamut :: "env \<Rightarrow> jsval \<Rightarrow> addr \<Rightarrow> addr \<Rightarrow> addr js" where
  "mapToGamut env inGamut color cs =
     (if truthy inGamut then
        js_bind (checkInGamut env color) (\<lambda>ok.
          if \<not> ok then
            js_bind (clone env color) (\<lambda>cl.
            js_bind (toGamut env cl (if inGamut = JBool True then JUndefined else inGamut)) (\<lambda>g.
            js_read (\<lambda>h. coords (colors h g))))
          else js_return cs)
      else js_return cs)"

text \<open>Lines 56 to 63: a custom format.\<close>

definition customSyntax :: "format \<Rightarrow> string \<Rightarrow> options \<Rightarrow> addr \<Rightarrow> addr \<Rightarrow> string js" where
  "customSyntax fmt formatId opts color cs =
     (case f_serialize fmt of
        Some hook \<Rightarrow> js_bind (js_read (\<lambda>h. alpha (colors h color))) (\<lambda>a. hook cs a opts)
      | None \<Rightarrow> js_throw (JsError ''TypeError''
          (''format '' @ formatId @ '' can only be used to parse colors, not for serialization'')))"

text \<open>Line 66: \<^verbatim>\<open>format.name || "color"\<close>.\<close>

definition functionName :: "format \<Rightarrow> string" where
  "functionName fmt = (if str_truthy (f_name fmt) then the (f_name fmt) else ''color'')"

text \<open>
  Line 72: \<^verbatim>\<open>format.id || format.ids?.[0] || color.space.cssId || color.space.id\<close>.
  The value becomes an element of \<^verbatim>\<open>args\<close>, which \<^verbatim>\<open>join\<close> turns into a string
  (\<^verbatim>\<open>undefined\<close> into the empty one).
\<close>

definition firstId :: "format \<Rightarrow> string option" where
  "firstId fmt = (case f_ids fmt of None \<Rightarrow> None | Some [] \<Rightarrow> None | Some (i # is) \<Rightarrow> Some i)"

definition colorFunctionId :: "env \<Rightarrow> format \<Rightarrow> space_ref \<Rightarrow> string" where
  "colorFunctionId env fmt sp =
     (if str_truthy (f_id fmt) then the (f_id fmt)
      else if str_truthy (firstId fmt) then the (firstId fmt)
      else if str_truthy (cssId env sp) then the (cssId env sp)
      else space_id env sp)"

text \<open>Lines 79 to 81: a string or a boolean given for \<^verbatim>\<open>alpha\<close> becomes an object.\<close>

definition alphaFormatObject :: "jsval \<Rightarrow> jsval" where
  "alphaFormatObject af =
     (if af \<noteq> JUndefined \<and> \<not> (js_typeof af = ''object'')
      then (if js_typeof af = ''string'' then JObj [(''type'', af)] else JObj [(''include'', af)])
      else af)"

text \<open>Line 83.\<close>

definition alphaType :: "jsval \<Rightarrow> jsval" where
  "alphaType af = nullish (opt_chain af ''type'') (JStr ''<number>'')"

text \<open>Line 84.\<close>

definition serializeAlpha :: "jsval \<Rightarrow> format \<Rightarrow> real \<Rightarrow> bool" where
  "serializeAlpha af fmt a =
     (opt_chain af ''include'' = JBool True \<or> f_alpha fmt = JBool True \<or>
      (opt_chain af ''include'' \<noteq> JBool False \<and> f_alpha fmt \<noteq> JBool False \<and> a < 1))"

text \<open>Lines 88 to 97: the text of the alpha value.\<close>

definition alphaText :: "env \<Rightarrow> jsval \<Rightarrow> jsval \<Rightarrow> real \<Rightarrow> string" where
  "alphaText env precision af a =
     (if precision \<noteq> JNull then
        (if alphaType af = JStr ''<percentage>''
         then serializeNumber env (multiply env a 100) precision (Some ''%'')
         else serializeNumber env a precision None)
      else numberToString env a)"

text \<open>Lines 85 to 100: the alpha suffix.\<close>

definition strAlpha :: "env \<Rightarrow> format \<Rightarrow> jsval \<Rightarrow> jsval \<Rightarrow> real \<Rightarrow> string" where
  "strAlpha env fmt precision af a =
     (if serializeAlpha af fmt a
      then (if truthy (f_commas fmt) then '','' else '' /'') @ '' '' @ alphaText env precision af a
      else '''')"

text \<open>Lines 64 to 103: the functional syntax.\<close>

definition functionalSyntax ::
  "env \<Rightarrow> format \<Rightarrow> jsval \<Rightarrow> jsval \<Rightarrow> jsval \<Rightarrow> addr \<Rightarrow> addr \<Rightarrow> string js" where
  "functionalSyntax env fmt precision coordFormat alphaFormat color cs =
     (let name = functionName fmt in
      js_bind (f_serializeCoords fmt cs precision coordFormat) (\<lambda>args.
      js_bind (if name = ''color''
               then js_bind (js_read (\<lambda>h. space (colors h color))) (\<lambda>sp.
                      js_return (colorFunctionId env fmt sp # args))
               else js_return args) (\<lambda>args.
      js_bind (js_read (\<lambda>h. alpha (colors h color))) (\<lambda>a.
      js_return (name @ ''('' @ join (if truthy (f_commas fmt) then '', '' else '' '') args
                 @ strAlpha env fmt precision (alphaFormatObject alphaFormat) a @ '')'')))))"

text \<open>
  Lines 20 to 26: the destructuring of the options; a default applies exactly when
  the property is \<^verbatim>\<open>undefined\<close>.
\<close>

definition optPrecision :: "env \<Rightarrow> options \<Rightarrow> jsval" where
  "optPrecision env opts =
     (if opt_precision opts = JUndefined then defaults_precision env else opt_precision opts)"

definition optFormat :: "options \<Rightarrow> string" where
  "optFormat opts = (case opt_format opts of None \<Rightarrow> ''default'' | Some f \<Rightarrow> f)"

definition optInGamut :: "options \<Rightarrow> jsval" where
  "optInGamut opts = (if opt_inGamut opts = JUndefined then JBool True else opt_inGamut opts)"

text \<open>
  Lines 37 to 54: the color the format is rendered from and its working coordinates.
  The coordinates are copied (line 47) before the flag is computed and the gamut is
  checked.
\<close>

definition workingCoords :: "env \<Rightarrow> format \<Rightarrow> jsval \<Rightarrow> space_ref \<Rightarrow> addr \<Rightarrow> (addr \<times> addr) js" where
  "workingCoords env fmt inGamut sp color =
     js_bind (convertToFormatSpace env fmt sp color) (\<lambda>color.
     js_bind (js_read (\<lambda>h. coords (colors h color))) (\<lambda>orig.
     js_bind (slice orig) (\<lambda>cs.
     js_bind (mapToGamut env (gamutFlag inGamut fmt) color cs) (\<lambda>cs.
     js_return (color, cs)))))"

text \<open>Lines 56 to 103: the two kinds of format.\<close>

definition render :: "env \<Rightarrow> format \<Rightarrow> options \<Rightarrow> addr \<Rightarrow> addr \<Rightarrow> string js" where
  "render env fmt opts color cs =
     (if f_type fmt = Some ''custom''
      then customSyntax fmt (optFormat opts) opts color cs
      else functionalSyntax env fmt (optPrecision env opts) (opt_coords opts) (opt_alpha opts)
             color cs)"

text \<open>Lines 37 to 105, for the format that line 32 resolved.\<close>

definition serializeWith :: "env \<Rightarrow> options \<Rightarrow> format \<Rightarrow> space_ref \<Rightarrow> addr \<Rightarrow> string js" where
  "serializeWith env opts fmt sp color =
     js_bind (workingCoords env fmt (optInGamut opts) sp color) (\<lambda>(color, cs).
     render env fmt opts color cs)"

text \<open>The whole function, lines 19 to 106.\<close>

definition serialize :: "env \<Rightarrow> color_input \<Rightarrow> options \<Rightarrow> string js" where
  "serialize env color opts =
     js_bind (getColor env color) (\<lambda>color.
     js_bind (js_read (\<lambda>h. space (colors h color))) (\<lambda>sp.
     serializeWith env opts (resolveFormat env sp (optFormat opts)) sp color))"

section \<open>A small registry to run the function on\<close>

text \<open>
  The theorems below hold for every choice of the collaborators. To run
  \<open>serialize\<close> on concrete colors they are instantiated with a small registry: the
  space \<open>0\<close> is \<^verbatim>\<open>srgb\<close> (no CSS id of its own), the space \<open>1\<close> is \<^verbatim>\<open>p3\<close> with the
  CSS id \<^verbatim>\<open>display-p3\<close>. The number formatter knows the numbers the examples use.
\<close>

definition demoNumber :: "real \<Rightarrow> string" where
  "demoNumber n =
     (if n = 0 then ''0'' else if n = 1 then ''1'' else if n = 1/2 then ''0.5''
      else if n = 6/5 then ''1.2'' else if n = 50 then ''50'' else if n = 100 then ''100''
      else ''?'')"

fun demoCoord :: "jsval \<Rightarrow> string" where
  "demoCoord (JNum n) = demoNumber n"
| "demoCoord v = ''none''"

definition demoSerializeCoords :: "addr \<Rightarrow> jsval \<Rightarrow> jsval \<Rightarrow> string list js" where
  "demoSerializeCoords cs precision coordFormat = js_read (\<lambda>h. map demoCoord (arrays h cs))"

text \<open>A hook of a custom format; it also overwrites the array it is handed.\<close>

definition demoHook :: "addr \<Rightarrow> real \<Rightarrow> options \<Rightarrow> string js" where
  "demoHook cs a opts =
     (\<lambda>h. (Inr (''custom:'' @ join ''|'' (map demoCoord (arrays h cs)) @ ''|'' @ demoNumber a),
            h\<lparr>arrays := (arrays h)(cs := [])\<rparr>))"

definition functionFormat :: "string \<Rightarrow> space_ref \<Rightarrow> format" where
  "functionFormat name sp =
     \<lparr>f_type = Some ''function'', f_name = Some name, f_id = None, f_ids = None,
      f_space = Some sp, f_toGamut = JUndefined, f_alpha = JUndefined, f_commas = JUndefined,
      f_serialize = None, f_serializeCoords = demoSerializeCoords\<rparr>"

definition customFormat :: "space_ref \<Rightarrow> (addr \<Rightarrow> real \<Rightarrow> options \<Rightarrow> string js) option \<Rightarrow> format" where
  "customFormat sp hook =
     (functionFormat ''custom'' sp)\<lparr>f_type := Some ''custom'', f_name := None, f_serialize := hook\<rparr>"

text \<open>
  The formats of \<^verbatim>\<open>srgb\<close>: \<^verbatim>\<open>default\<close> and \<^verbatim>\<open>color\<close> (the generic wrapper),
  \<^verbatim>\<open>rgb\<close>, which asks for gamut mapping, \<^verbatim>\<open>rgba\<close>, which uses commas and always
  writes alpha, \<^verbatim>\<open>tagged\<close>, a wrapper with an id of its own, \<^verbatim>\<open>hex\<close>, a custom
  format, and \<^verbatim>\<open>keyword\<close>, a custom format that can only be parsed. \<^verbatim>\<open>p3\<close> has a
  \<^verbatim>\<open>color\<close> format only.
\<close>

definition demoGetFormat :: "space_ref \<Rightarrow> string \<Rightarrow> format option" where
  "demoGetFormat sp fid =
     (if sp = 0 then
        (if fid = ''default'' \<or> fid = ''color'' then Some (functionFormat ''color'' 0)
         else if fid = ''rgb'' then Some ((functionFormat ''rgb'' 0)\<lparr>f_toGamut := JBool True\<rparr>)
         else if fid = ''rgba'' then
           Some ((functionFormat ''rgba'' 0)\<lparr>f_commas := JBool True, f_alpha := JBool True\<rparr>)
         else if fid = ''tagged'' then Some ((functionFormat ''color'' 0)\<lparr>f_id := Some ''--tagged''\<rparr>)
         else if fid = ''hex'' then Some (customFormat 0 (Some demoHook))
         else if fid = ''keyword'' then Some (customFormat 0 None)
         else None)
      else if sp = 1 then
        (if fid = ''color'' then Some (functionFormat ''color'' 1) else None)
      else None)"

definition demoFindFormat :: "string \<Rightarrow> format option" where
  "demoFindFormat fid =
     (case demoGetFormat 0 fid of Some f \<Rightarrow> Some f | None \<Rightarrow> demoGetFormat 1 fid)"

fun inUnit :: "jsval \<Rightarrow> bool" where
  "inUnit (JNum n) = (0 \<le> n \<and> n \<le> 1)"
| "inUnit v = True"

fun clipUnit :: "jsval \<Rightarrow> jsval" where
  "clipUnit (JNum n) = JNum (max 0 (min 1 n))"
| "clipUnit v = v"

text \<open>A new color object with a new array of coordinates.\<close>

definition newColor :: "space_ref \<Rightarrow> jsval list \<Rightarrow> real \<Rightarrow> addr js" where
  "newColor sp cs a =
     (\<lambda>h. (Inr (fresh h),
        h\<lparr>colors := (colors h)(fresh h := \<lparr>space = sp, coords = fresh h, alpha = a\<rparr>),
          arrays := (arrays h)(fresh h := cs),
          fresh := Suc (fresh h)\<rparr>))"

definition demoGetColor :: "color_input \<Rightarrow> addr js" where
  "demoGetColor c =
     (case c of ColorRef a \<Rightarrow> js_return a
      | ColorString s \<Rightarrow> js_throw (JsError ''TypeError'' (''Could not parse '' @ s)))"

definition demoTo :: "addr \<Rightarrow> space_ref \<Rightarrow> addr js" where
  "demoTo c sp = (\<lambda>h. newColor sp (arrays h (coords (colors h c))) (alpha (colors h c)) h)"

definition demoCheckInGamut :: "addr \<Rightarrow> bool js" where
  "demoCheckInGamut c = js_read (\<lambda>h. list_all inUnit (arrays h (coords (colors h c))))"

definition demoClone :: "addr \<Rightarrow> addr js" where
  "demoClone c =
     (\<lambda>h. newColor (space (colors h c)) (arrays h (coords (colors h c))) (alpha (colors h c)) h)"

text \<open>
  A gamut mapper that clips, and that works in place: it overwrites the coordinates of
  the object it is handed, sets its alpha to 1 and returns it.
\<close>

definition demoToGamut :: "addr \<Rightarrow> jsval \<Rightarrow> addr js" where
  "demoToGamut c selector =
     (\<lambda>h. (Inr c,
        h\<lparr>colors := (colors h)(c := (colors h c)\<lparr>alpha := 1\<rparr>),
          arrays := (arrays h)(coords (colors h c) := map clipUnit (arrays h (coords (colors h c))))\<rparr>))"

definition demoEnv :: env where
  "demoEnv =
     \<lparr>defaults_precision = JNum 5,
      DEFAULT_FORMAT = functionFormat ''color'' 0,
      getColor = demoGetColor,
      getFormat = demoGetFormat,
      findFormat = demoFindFormat,
      cssId = (\<lambda>sp. if sp = 1 then Some ''display-p3'' else None),
      space_id = (\<lambda>sp. if sp = 0 then ''srgb'' else if sp = 1 then ''p3'' else ''unknown''),
      to = demoTo,
      checkInGamut = demoCheckInGamut,
      toGamut = demoToGamut,
      clone = demoClone,
      serializeNumber = (\<lambda>n precision unit. demoNumber n @ (case unit of None \<Rightarrow> [] | Some u \<Rightarrow> u)),
      numberToString = demoNumber,
      multiply = (\<lambda>x y. x * y)\<rparr>"

text \<open>
  A store with three colors: at \<open>0\<close> opaque red in \<^verbatim>\<open>srgb\<close>, at \<open>1\<close> a half
  transparent color outside the gamut of \<^verbatim>\<open>srgb\<close>, at \<open>2\<close> opaque red in \<^verbatim>\<open>p3\<close>.
  All three are of the shape \<^verbatim>\<open>PlainColorObject\<close>.
\<close>

definition demoHeap :: heap where
  "demoHeap =
     \<lparr>colors = (\<lambda>a. if a = 1 then \<lparr>space = 0, coords = 1, alpha = 1/2\<rparr>
                    else if a = 2 then \<lparr>space = 1, coords = 2, alpha = 1\<rparr>
                    else \<lparr>space = 0, coords = 0, alpha = 1\<rparr>),
      arrays = (\<lambda>a. if a = 1 then [JNum (6/5), JNum 0, JNum 0] else [JNum 1, JNum 0, JNum 0]),
      fresh = 3,
      loose = (\<lambda>a. None)\<rparr>"

definition noOptions :: options where
  "noOptions = \<lparr>opt_precision = JUndefined, opt_format = None, opt_inGamut = JUndefined,
                opt_coords = JUndefined, opt_alpha = JUndefined\<rparr>"

text \<open>
  The stores a call on the color at \<open>1\<close> goes through: after the copy of its
  coordinates, after the clone, after the gamut mapping of the clone.
\<close>

definition demoHeapCopied :: heap where
  "demoHeapCopied = snd (slice 1 demoHeap)"

definition demoHeapCloned :: heap where
  "demoHeapCloned = snd (demoClone 1 demoHeapCopied)"

definition demoHeapMapped :: heap where
  "demoHeapMapped = snd (demoToGamut 4 JUndefined demoHeapCloned)"

text \<open>The store after the coordinates of the color at \<open>0\<close> have been copied.\<close>

definition demoHeapRed :: heap where
  "demoHeapRed = snd (slice 0 demoHeap)"







section \<open>Footprints on the store\<close>

text \<open>
  Every object and every array at an address below \<open>n\<close> is in \<open>h'\<close> what it was in
  \<open>h\<close>.
\<close>

definition unchanged_below :: "addr \<Rightarrow> heap \<Rightarrow> heap \<Rightarrow> bool" where
  "unchanged_below n h h' \<longleftrightarrow>
     (\<forall>a<n. colors h' a = colors h a \<and> arrays h' a = arrays h a \<and> loose h' a = loose h a)"







text \<open>
  Run from \<open>h\<close>, the computation leaves everything below \<open>n\<close> as it is, and
  a value it returns satisfies \<open>Q\<close> in the store it leaves.
\<close>

definition preserves :: "addr \<Rightarrow> heap \<Rightarrow> 'a js \<Rightarrow> ('a \<Rightarrow> heap \<Rightarrow> bool) \<Rightarrow> bool" where
  "preserves n h m Q \<longleftrightarrow>
     (case m h of (r, h') \<Rightarrow>
        n \<le> fresh h' \<and> unchanged_below n h h' \<and> (case r of Inl e \<Rightarrow> True | Inr x \<Rightarrow> Q x h'))"

section \<open>Running a computation\<close>

lemma js_bind_return [simp]: "js_bind (js_return x) f = f x"
  by (simp add: js_bind_def js_return_def)

lemma js_bind_read [simp]: "js_bind (js_read g) f h = f (g h) h"
  by (simp add: js_bind_def js_read_def)

lemma js_bind_throw [simp]: "js_bind (js_throw e) f = js_throw e"
  by (simp add: js_bind_def js_throw_def)

lemma js_bind_Inr: "m h = (Inr x, h') \<Longrightarrow> js_bind m f h = f x h'"
  by (simp add: js_bind_def)

lemma js_bind_Inl: "m h = (Inl e, h') \<Longrightarrow> js_bind m f h = (Inl e, h')"
  by (simp add: js_bind_def)

lemmas demo_defs = demoEnv_def demoHeap_def noOptions_def demoGetColor_def demoGetFormat_def
  demoFindFormat_def demoTo_def demoCheckInGamut_def demoClone_def demoToGamut_def newColor_def
  demoSerializeCoords_def demoHook_def functionFormat_def customFormat_def demoNumber_def

lemmas serialize_defs = serialize_def serializeWith_def workingCoords_def render_def
  resolveFormat_def convertToFormatSpace_def gamutFlag_def mapToGamut_def customSyntax_def
  functionalSyntax_def functionName_def colorFunctionId_def firstId_def alphaFormatObject_def
  alphaType_def serializeAlpha_def alphaText_def strAlpha_def optPrecision_def optFormat_def
  optInGamut_def slice_def js_or_def nullish_def str_truthy_def

lemmas run_defs = js_bind_def js_read_def js_return_def js_throw_def Let_def

text \<open>Once \<open>getColor\<close> has returned, the rest runs with the resolved format.\<close>

lemma serialize_run:
  assumes "getColor env input h0 = (Inr c, h1)"
  shows "serialize env input opts h0 =
           serializeWith env opts (resolveFormat env (space (colors h1 c)) (optFormat opts))
             (space (colors h1 c)) c h1"
  using assms by (simp add: serialize_def js_bind_Inr)

lemma serializeWith_run:
  assumes "workingCoords env fmt (optInGamut opts) sp c0 h1 = (Inr (c, cs), h2)"
  shows "serializeWith env opts fmt sp c0 h1 = render env fmt opts c cs h2"
  using assms by (simp add: serializeWith_def js_bind_Inr)

text \<open>The three ways lines 47 to 54 can go when no collaborator throws.\<close>

lemma workingCoords_unchecked:
  assumes "convertToFormatSpace env fmt sp c0 h1 = (Inr c, h2)"
    and "slice (coords (colors h2 c)) h2 = (Inr cs0, h3)"
    and "\<not> truthy (gamutFlag inGamut fmt)"
  shows "workingCoords env fmt inGamut sp c0 h1 = (Inr (c, cs0), h3)"
  using assms by (simp add: workingCoords_def mapToGamut_def js_bind_Inr js_return_def)

lemma workingCoords_in_gamut:
  assumes "convertToFormatSpace env fmt sp c0 h1 = (Inr c, h2)"
    and "slice (coords (colors h2 c)) h2 = (Inr cs0, h3)"
    and "truthy (gamutFlag inGamut fmt)"
    and "checkInGamut env c h3 = (Inr True, h4)"
  shows "workingCoords env fmt inGamut sp c0 h1 = (Inr (c, cs0), h4)"
  using assms by (simp add: workingCoords_def mapToGamut_def js_bind_Inr js_return_def)

lemma workingCoords_mapped:
  assumes "convertToFormatSpace env fmt sp c0 h1 = (Inr c, h2)"
    and "slice (coords (colors h2 c)) h2 = (Inr cs0, h3)"
    and "truthy (gamutFlag inGamut fmt)"
    and "checkInGamut env c h3 = (Inr False, h4)"
    and "clone env c h4 = (Inr cl, h5)"
    and "toGamut env cl (if gamutFlag inGamut fmt = JBool True then JUndefined
                         else gamutFlag inGamut fmt) h5 = (Inr g, h6)"
  shows "workingCoords env fmt inGamut sp c0 h1 = (Inr (c, coords (colors h6 g)), h6)"
  using assms
  by (cases "gamutFlag inGamut fmt = JBool True")
     (simp_all add: workingCoords_def mapToGamut_def js_bind_def js_return_def js_read_def)

text \<open>What is rendered, for the two kinds of format.\<close>

lemma serialize_render:
  assumes "getColor env input h0 = (Inr c0, h1)"
    and "sp = space (colors h1 c0)"
    and "fmt = resolveFormat env sp (optFormat opts)"
    and "workingCoords env fmt (optInGamut opts) sp c0 h1 = (Inr (c, cs), h2)"
  shows "serialize env input opts h0 = render env fmt opts c cs h2"
  using assms by (simp add: serialize_run serializeWith_run)

lemma render_functional:
  assumes "f_type fmt \<noteq> Some ''custom''"
    and "f_serializeCoords fmt cs (optPrecision env opts) (opt_coords opts) h2 = (Inr args, h3)"
  shows "render env fmt opts c cs h2 =
           (Inr (functionName fmt @ ''('' @
                 join (if truthy (f_commas fmt) then '', '' else '' '')
                   (if functionName fmt = ''color''
                    then colorFunctionId env fmt (space (colors h3 c)) # args else args) @
                 strAlpha env fmt (optPrecision env opts) (alphaFormatObject (opt_alpha opts))
                   (alpha (colors h3 c)) @ '')''), h3)"
  using assms
  by (simp add: render_def functionalSyntax_def js_bind_def js_read_def js_return_def Let_def)

lemma render_custom_hook:
  assumes "f_type fmt = Some ''custom''" and "f_serialize fmt = Some hook"
  shows "render env fmt opts c cs h = hook cs (alpha (colors h c)) opts h"
  using assms by (simp add: render_def customSyntax_def)

lemma render_custom_parse_only:
  assumes "f_type fmt = Some ''custom''" and "f_serialize fmt = None"
  shows "render env fmt opts c cs h =
           (Inl (JsError ''TypeError'' (''format '' @ optFormat opts @
                  '' can only be used to parse colors, not for serialization'')), h)"
  using assms by (simp add: render_def customSyntax_def js_throw_def)

lemma functionName_cases:
  "functionName fmt = (case f_name fmt of None \<Rightarrow> ''color'' | Some n \<Rightarrow> if n = [] then ''color'' else n)"
  by (simp add: functionName_def str_truthy_def split: option.splits)

lemma colorFunctionId_cases:
  "colorFunctionId env fmt sp =
     (case f_id fmt of Some (x # xs) \<Rightarrow> x # xs
      | _ \<Rightarrow> (case f_ids fmt of Some ((x # xs) # rest) \<Rightarrow> x # xs
      | _ \<Rightarrow> (case cssId env sp of Some (x # xs) \<Rightarrow> x # xs
      | _ \<Rightarrow> space_id env sp)))"
  by (simp add: colorFunctionId_def firstId_def str_truthy_def split: option.splits list.splits)

section \<open>Runs on the small registry\<close>

lemmas demo_heaps = demoHeapCopied_def demoHeapCloned_def demoHeapMapped_def

lemma demo_getColor: "getColor demoEnv (ColorRef a) h = (Inr a, h)"
  by (simp add: demo_defs run_defs)

lemma demo_resolve_default: "resolveFormat demoEnv 0 ''default'' = functionFormat ''color'' 0"
  by (simp add: resolveFormat_def demo_defs)

lemma demo_no_conversion: "convertToFormatSpace demoEnv (functionFormat n 0) 0 c h = (Inr c, h)"
  by (simp add: convertToFormatSpace_def functionFormat_def js_return_def)

lemma demo_slice: "slice (coords (colors demoHeap 1)) demoHeap = (Inr 3, demoHeapCopied)"
  by (simp add: demo_heaps demo_defs slice_def)

lemma demo_check: "checkInGamut demoEnv 1 demoHeapCopied = (Inr False, demoHeapCopied)"
  by (simp add: demo_heaps demo_defs slice_def run_defs)

lemma demo_clone: "clone demoEnv 1 demoHeapCopied = (Inr 4, demoHeapCloned)"
  by (simp add: demo_heaps demo_defs slice_def)

lemma demo_toGamut: "toGamut demoEnv 4 JUndefined demoHeapCloned = (Inr 4, demoHeapMapped)"
  by (simp add: demo_heaps demo_defs slice_def)

lemma demo_mapped:
  "coords (colors demoHeapMapped 4) = 4"
  "arrays demoHeapMapped 4 = [JNum 1, JNum 0, JNum 0]"
  "arrays demoHeapMapped 1 = [JNum (6/5), JNum 0, JNum 0]"
  by (simp_all add: demo_heaps demo_defs slice_def)

lemma demo_env:
  "defaults_precision demoEnv = JNum 5"
  "cssId demoEnv 0 = None"
  "cssId demoEnv 1 = Some ''display-p3''"
  "space_id demoEnv 0 = ''srgb''"
  "serializeNumber demoEnv n p None = demoNumber n"
  "serializeNumber demoEnv n p (Some u) = demoNumber n @ u"
  "numberToString demoEnv n = demoNumber n"
  "multiply demoEnv x y = x * y"
  by (simp_all add: demoEnv_def)

lemma demo_opts:
  "opt_precision (noOptions\<lparr>opt_format := f\<rparr>) = JUndefined"
  "opt_inGamut (noOptions\<lparr>opt_format := f\<rparr>) = JUndefined"
  "opt_coords (noOptions\<lparr>opt_format := f\<rparr>) = JUndefined"
  "opt_alpha (noOptions\<lparr>opt_format := f\<rparr>) = JUndefined"
  "opt_precision noOptions = JUndefined"
  "opt_format noOptions = None"
  "opt_inGamut noOptions = JUndefined"
  "opt_coords noOptions = JUndefined"
  "opt_alpha noOptions = JUndefined"
  by (simp_all add: noOptions_def)

lemma demo_resolve:
  "resolveFormat demoEnv 0 ''tagged'' = (functionFormat ''color'' 0)\<lparr>f_id := Some ''--tagged''\<rparr>"
  "resolveFormat demoEnv 0 ''rgb'' = (functionFormat ''rgb'' 0)\<lparr>f_toGamut := JBool True\<rparr>"
  "resolveFormat demoEnv 0 ''rgba'' =
     (functionFormat ''rgba'' 0)\<lparr>f_commas := JBool True, f_alpha := JBool True\<rparr>"
  "resolveFormat demoEnv 0 ''hex'' = customFormat 0 (Some demoHook)"
  "resolveFormat demoEnv 0 ''keyword'' = customFormat 0 None"
  by (simp_all add: resolveFormat_def demo_defs)

lemma demo_working_red:
  assumes "f_space fmt = Some 0"
  shows "workingCoords demoEnv fmt ig 0 0 demoHeap = (Inr (0, 3), demoHeapRed)"
  using assms
  by (simp add: workingCoords_def convertToFormatSpace_def mapToGamut_def slice_def demoHeapRed_def
      demo_defs run_defs)

lemma demo_working_mapped:
  assumes "f_space fmt = Some 0" and "truthy (gamutFlag ig fmt)"
  shows "workingCoords demoEnv fmt ig 0 1 demoHeap = (Inr (1, 4), demoHeapMapped)"
proof -
  have c: "convertToFormatSpace demoEnv fmt 0 1 demoHeap = (Inr 1, demoHeap)"
    using assms(1) by (simp add: convertToFormatSpace_def js_return_def)
  have t: "toGamut demoEnv 4 (if gamutFlag ig fmt = JBool True then JUndefined
             else gamutFlag ig fmt) demoHeapCloned = (Inr 4, demoHeapMapped)"
    by (simp add: demoHeapMapped_def demoEnv_def demoToGamut_def)
  from workingCoords_mapped [OF c demo_slice assms(2) demo_check demo_clone t]
  show ?thesis by (simp add: demo_mapped)
qed

lemma demo_serializeCoords:
  "demoSerializeCoords cs p cf h = (Inr (map demoCoord (arrays h cs)), h)"
  by (simp add: demoSerializeCoords_def js_read_def)

lemma demo_red:
  "arrays demoHeapRed 3 = [JNum 1, JNum 0, JNum 0]"
  "colors demoHeapRed 0 = \<lparr>space = 0, coords = 0, alpha = 1\<rparr>"
  by (simp_all add: demoHeapRed_def slice_def demo_defs)

lemma demo_mapped_color:
  "colors demoHeapMapped 1 = \<lparr>space = 0, coords = 1, alpha = 1/2\<rparr>"
  "colors demoHeapMapped (Suc 0) = \<lparr>space = 0, coords = 1, alpha = 1/2\<rparr>"
  by (simp_all add: demo_heaps demo_defs slice_def)

lemma demo_copied:
  "arrays demoHeapCopied 3 = [JNum (6/5), JNum 0, JNum 0]"
  "colors demoHeapCopied 1 = \<lparr>space = 0, coords = 1, alpha = 1/2\<rparr>"
  "colors demoHeapCopied (Suc 0) = \<lparr>space = 0, coords = 1, alpha = 1/2\<rparr>"
  by (simp_all add: demo_heaps demo_defs slice_def)

section \<open>Resolution of the format\<close>

text \<open>
  C2. The format is resolved in this order: the format of the color's own space named
  by \<^verbatim>\<open>options.format\<close> (\<^verbatim>\<open>"default"\<close> when the option is absent); else a format of
  that id found in the registry; else the \<^verbatim>\<open>"default"\<close> format of the color's space;
  else the hard-coded \<^verbatim>\<open>DEFAULT_FORMAT\<close>. Resolution itself never throws: for an id
  that matches nothing, \<open>serialize\<close> goes on with \<^verbatim>\<open>DEFAULT_FORMAT\<close>.
\<close>

theorem C2_format_resolution:
  assumes "getColor env input h0 = (Inr c, h1)"
    and "sp = space (colors h1 c)"
    and "fid = (case opt_format opts of None \<Rightarrow> ''default'' | Some i \<Rightarrow> i)"
  shows "(\<forall>f. getFormat env sp fid = Some f \<longrightarrow>
            serialize env input opts h0 = serializeWith env opts f sp c h1) \<and>
         (\<forall>f. getFormat env sp fid = None \<and> findFormat env fid = Some f \<longrightarrow>
            serialize env input opts h0 = serializeWith env opts f sp c h1) \<and>
         (\<forall>f. getFormat env sp fid = None \<and> findFormat env fid = None \<and>
              getFormat env sp ''default'' = Some f \<longrightarrow>
            serialize env input opts h0 = serializeWith env opts f sp c h1) \<and>
         (getFormat env sp fid = None \<and> findFormat env fid = None \<and>
              getFormat env sp ''default'' = None \<longrightarrow>
            serialize env input opts h0 = serializeWith env opts (DEFAULT_FORMAT env) sp c h1)"
proof -
  have "serialize env input opts h0 = serializeWith env opts (resolveFormat env sp fid) sp c h1"
    using assms by (simp add: serialize_run optFormat_def)
  then show ?thesis
    by (simp add: resolveFormat_def)
qed

text \<open>
  The color at \<open>2\<close> is in \<^verbatim>\<open>p3\<close>, which has no \<^verbatim>\<open>"default"\<close> format, and no space
  has a format \<^verbatim>\<open>nope\<close>: the call ends in \<^verbatim>\<open>DEFAULT_FORMAT\<close> and returns a string.
\<close>

theorem C2_format_resolution_witness:
  "getColor demoEnv (ColorRef 2) demoHeap = (Inr 2, demoHeap) \<and>
   getFormat demoEnv 1 ''nope'' = None \<and> findFormat demoEnv ''nope'' = None \<and>
   getFormat demoEnv 1 ''default'' = None \<and>
   serialize demoEnv (ColorRef 2) (noOptions\<lparr>opt_format := Some ''nope''\<rparr>) demoHeap =
     serializeWith demoEnv (noOptions\<lparr>opt_format := Some ''nope''\<rparr>) (DEFAULT_FORMAT demoEnv) 1 2 demoHeap \<and>
   fst (serializeWith demoEnv (noOptions\<lparr>opt_format := Some ''nope''\<rparr>) (DEFAULT_FORMAT demoEnv) 1 2 demoHeap) =
     Inr ''color(srgb 1 0 0)''"
proof -
  have g: "getColor demoEnv (ColorRef 2) demoHeap = (Inr 2, demoHeap)"
    by (simp add: demo_defs run_defs)
  have s: "(1::nat) = space (colors demoHeap 2)"
    by (simp add: demo_defs)
  have i: "''nope'' = (case opt_format (noOptions\<lparr>opt_format := Some ''nope''\<rparr>) of
                        None \<Rightarrow> ''default'' | Some i \<Rightarrow> i)"
    by simp
  have n: "getFormat demoEnv 1 ''nope'' = None \<and> findFormat demoEnv ''nope'' = None \<and>
           getFormat demoEnv 1 ''default'' = None"
    by (simp add: demo_defs)
  have r: "fst (serializeWith demoEnv (noOptions\<lparr>opt_format := Some ''nope''\<rparr>)
             (DEFAULT_FORMAT demoEnv) 1 2 demoHeap) = Inr ''color(srgb 1 0 0)''"
    by (simp add: serialize_defs demo_defs run_defs)
  from C2_format_resolution [OF g s i] n g r show ?thesis
    by blast
qed

section \<open>Gamut correction\<close>

text \<open>
  C1. The effective gamut-correction flag is \<^verbatim>\<open>options.inGamut\<close> (\<^verbatim>\<open>true\<close> when the
  option is absent) or-ed with the \<^verbatim>\<open>toGamut\<close> default of the resolved format. Gamut
  mapping runs exactly when the flag is truthy and the (possibly converted) color fails
  the gamut check: when the flag is falsy the copied coordinates are rendered and
  nothing is checked; when the check succeeds the copied coordinates are rendered; when
  it fails the coordinates of the result of \<^verbatim>\<open>toGamut\<close> are rendered, and
  \<^verbatim>\<open>toGamut\<close> is handed \<^verbatim>\<open>undefined\<close> as its second argument when the flag is
  \<^verbatim>\<open>true\<close> and the flag itself otherwise.
\<close>

theorem C1_gamut_correction:
  assumes "getColor env input h0 = (Inr c0, h1)"
    and "sp = space (colors h1 c0)"
    and "fmt = resolveFormat env sp (optFormat opts)"
    and "convertToFormatSpace env fmt sp c0 h1 = (Inr c, h2)"
    and "slice (coords (colors h2 c)) h2 = (Inr cs0, h3)"
    and "flag = js_or (if opt_inGamut opts = JUndefined then JBool True else opt_inGamut opts)
                  (f_toGamut fmt)"
  shows "(\<not> truthy flag \<longrightarrow> serialize env input opts h0 = render env fmt opts c cs0 h3) \<and>
         (\<forall>h4. truthy flag \<and> checkInGamut env c h3 = (Inr True, h4) \<longrightarrow>
            serialize env input opts h0 = render env fmt opts c cs0 h4) \<and>
         (\<forall>h4 cl h5 g h6.
            truthy flag \<and> checkInGamut env c h3 = (Inr False, h4) \<and>
            clone env c h4 = (Inr cl, h5) \<and>
            toGamut env cl (if flag = JBool True then JUndefined else flag) h5 = (Inr g, h6) \<longrightarrow>
            serialize env input opts h0 = render env fmt opts c (coords (colors h6 g)) h6)"
proof -
  have f: "flag = gamutFlag (optInGamut opts) fmt"
    using assms(6) by (simp add: gamutFlag_def optInGamut_def)
  have s: "serialize env input opts h0 = serializeWith env opts fmt sp c0 h1"
    using assms(1-3) by (simp add: serialize_run)
  show ?thesis
    unfolding s f
    using assms(4,5)
    by (auto simp: serializeWith_run workingCoords_unchecked workingCoords_in_gamut
        workingCoords_mapped)
qed

text \<open>
  The three cases on the registry: the color at \<open>1\<close> is outside the gamut and is
  mapped; with \<^verbatim>\<open>inGamut: false\<close> and a format without a \<^verbatim>\<open>toGamut\<close> default it is
  not even checked; the color at \<open>0\<close> is checked and left alone.
\<close>

theorem C1_gamut_correction_witness:
  "serialize demoEnv (ColorRef 1) noOptions demoHeap =
     render demoEnv (functionFormat ''color'' 0) noOptions 1 4 demoHeapMapped \<and>
   arrays demoHeapMapped 4 = [JNum 1, JNum 0, JNum 0] \<and>
   serialize demoEnv (ColorRef 1) (noOptions\<lparr>opt_inGamut := JBool False\<rparr>) demoHeap =
     render demoEnv (functionFormat ''color'' 0) (noOptions\<lparr>opt_inGamut := JBool False\<rparr>) 1 3
       demoHeapCopied \<and>
   arrays demoHeapCopied 3 = [JNum (6/5), JNum 0, JNum 0] \<and>
   serialize demoEnv (ColorRef 0) noOptions demoHeap =
     render demoEnv (functionFormat ''color'' 0) noOptions 0 3 (snd (slice 0 demoHeap))"
proof -
  have f: "JBool True = js_or (if opt_inGamut noOptions = JUndefined then JBool True
              else opt_inGamut noOptions) (f_toGamut (functionFormat ''color'' 0))"
    by (simp add: noOptions_def js_or_def)
  have r: "functionFormat ''color'' 0 = resolveFormat demoEnv 0 (optFormat noOptions)"
    by (simp add: demo_resolve_default optFormat_def noOptions_def)
  have s: "(0::nat) = space (colors demoHeap 1)"
    by (simp add: demo_defs)
  from C1_gamut_correction [OF demo_getColor s r demo_no_conversion demo_slice f]
  have "serialize demoEnv (ColorRef 1) noOptions demoHeap =
     render demoEnv (functionFormat ''color'' 0) noOptions 1 (coords (colors demoHeapMapped 4))
       demoHeapMapped"
    using demo_check demo_clone demo_toGamut by simp
  then have mapped: "serialize demoEnv (ColorRef 1) noOptions demoHeap =
     render demoEnv (functionFormat ''color'' 0) noOptions 1 4 demoHeapMapped"
    by (simp add: demo_mapped)
  have f': "JUndefined = js_or (if opt_inGamut (noOptions\<lparr>opt_inGamut := JBool False\<rparr>) = JUndefined
              then JBool True else opt_inGamut (noOptions\<lparr>opt_inGamut := JBool False\<rparr>))
              (f_toGamut (functionFormat ''color'' 0))"
    by (simp add: js_or_def functionFormat_def)
  have r': "functionFormat ''color'' 0 =
      resolveFormat demoEnv 0 (optFormat (noOptions\<lparr>opt_inGamut := JBool False\<rparr>))"
    by (simp add: demo_resolve_default optFormat_def noOptions_def)
  from C1_gamut_correction [OF demo_getColor s r' demo_no_conversion demo_slice f']
  have skipped: "serialize demoEnv (ColorRef 1) (noOptions\<lparr>opt_inGamut := JBool False\<rparr>) demoHeap =
     render demoEnv (functionFormat ''color'' 0) (noOptions\<lparr>opt_inGamut := JBool False\<rparr>) 1 3
       demoHeapCopied"
    by simp
  have s0: "(0::nat) = space (colors demoHeap 0)"
    by (simp add: demo_defs)
  have sl0: "slice (coords (colors demoHeap 0)) demoHeap = (Inr 3, snd (slice 0 demoHeap))"
    by (simp add: demo_defs slice_def)
  have ck0: "checkInGamut demoEnv 0 (snd (slice 0 demoHeap)) = (Inr True, snd (slice 0 demoHeap))"
    by (simp add: demo_defs slice_def run_defs)
  from C1_gamut_correction [OF demo_getColor s0 r demo_no_conversion sl0 f]
  have checked: "serialize demoEnv (ColorRef 0) noOptions demoHeap =
     render demoEnv (functionFormat ''color'' 0) noOptions 0 3 (snd (slice 0 demoHeap))"
    using ck0 by simp
  have raw: "arrays demoHeapCopied 3 = [JNum (6/5), JNum 0, JNum 0]"
    by (simp add: demo_heaps demo_defs slice_def)
  from mapped skipped checked raw show ?thesis
    by (simp add: demo_mapped)
qed

section \<open>The functional syntax\<close>

text \<open>
  C3, as the code has it. For a format that is not custom the string is
  \<^verbatim>\<open>name(args)\<close>: the name is \<^verbatim>\<open>format.name\<close>, or \<^verbatim>\<open>color\<close> when the format has
  none; the arguments are joined by \<^verbatim>\<open>", "\<close> when the format uses commas and by a
  space otherwise; the alpha suffix, when alpha is included, is \<^verbatim>\<open>", a"\<close> with commas
  and \<^verbatim>\<open>" / a"\<close> otherwise. When the name is \<^verbatim>\<open>color\<close> the first argument is
  the first non-empty one of \<^verbatim>\<open>format.id\<close>, \<^verbatim>\<open>format.ids[0]\<close> and the CSS id of
  the space, and the plain id of the space when there is none.
\<close>

theorem C3_functional_syntax:
  assumes "getColor env input h0 = (Inr c0, h1)"
    and "sp = space (colors h1 c0)"
    and "fmt = resolveFormat env sp (optFormat opts)"
    and "workingCoords env fmt (optInGamut opts) sp c0 h1 = (Inr (c, cs), h2)"
    and "f_type fmt \<noteq> Some ''custom''"
    and "f_serializeCoords fmt cs (optPrecision env opts) (opt_coords opts) h2 = (Inr args, h3)"
    and "name = (case f_name fmt of None \<Rightarrow> ''color'' | Some n \<Rightarrow> if n = [] then ''color'' else n)"
    and "firstArg =
           (case f_id fmt of Some (x # xs) \<Rightarrow> x # xs
            | _ \<Rightarrow> (case f_ids fmt of Some ((x # xs) # rest) \<Rightarrow> x # xs
            | _ \<Rightarrow> (case cssId env (space (colors h3 c)) of Some (x # xs) \<Rightarrow> x # xs
            | _ \<Rightarrow> space_id env (space (colors h3 c)))))"
    and "a = alphaText env (optPrecision env opts) (alphaFormatObject (opt_alpha opts))
               (alpha (colors h3 c))"
    and "suffix =
           (if serializeAlpha (alphaFormatObject (opt_alpha opts)) fmt (alpha (colors h3 c))
            then (if truthy (f_commas fmt) then '', '' @ a else '' / '' @ a) else [])"
  shows "serialize env input opts h0 =
           (Inr (name @ ''('' @
                 join (if truthy (f_commas fmt) then '', '' else '' '')
                   (if name = ''color'' then firstArg # args else args) @
                 suffix @ '')''), h3)"
proof -
  have "serialize env input opts h0 = render env fmt opts c cs h2"
    using assms(1-4) by (rule serialize_render)
  also have "\<dots> = (Inr (functionName fmt @ ''('' @
                 join (if truthy (f_commas fmt) then '', '' else '' '')
                   (if functionName fmt = ''color''
                    then colorFunctionId env fmt (space (colors h3 c)) # args else args) @
                 strAlpha env fmt (optPrecision env opts) (alphaFormatObject (opt_alpha opts))
                   (alpha (colors h3 c)) @ '')''), h3)"
    using assms(5,6) by (rule render_functional)
  finally show ?thesis
    unfolding assms(7-10) functionName_cases [symmetric] colorFunctionId_cases [symmetric]
    by (simp add: strAlpha_def)
qed

theorem C3_functional_syntax_witness:
  "serialize demoEnv (ColorRef 0) (noOptions\<lparr>opt_format := Some ''tagged''\<rparr>) demoHeap =
     (Inr ''color(--tagged 1 0 0)'', demoHeapRed) \<and>
   serialize demoEnv (ColorRef 1) (noOptions\<lparr>opt_format := Some ''rgba''\<rparr>) demoHeap =
     (Inr ''rgba(1, 0, 0, 0.5)'', demoHeapMapped) \<and>
   serialize demoEnv (ColorRef 1) noOptions demoHeap =
     (Inr ''color(srgb 1 0 0 / 0.5)'', demoHeapMapped)"
proof -
  have s0: "(0::nat) = space (colors demoHeap 0)" and s1: "(0::nat) = space (colors demoHeap 1)"
    by (simp_all add: demo_defs)
  let ?o1 = "noOptions\<lparr>opt_format := Some ''tagged''\<rparr>"
  let ?f1 = "resolveFormat demoEnv 0 ''tagged''"
  have r1: "?f1 = resolveFormat demoEnv 0 (optFormat ?o1)"
    by (simp add: optFormat_def)
  have w1: "workingCoords demoEnv ?f1 (optInGamut ?o1) 0 0 demoHeap = (Inr (0, 3), demoHeapRed)"
    by (rule demo_working_red) (simp add: demo_resolve functionFormat_def)
  have t1: "f_type ?f1 \<noteq> Some ''custom''"
    by (simp add: demo_resolve functionFormat_def)
  have c1: "f_serializeCoords ?f1 3 (optPrecision demoEnv ?o1) (opt_coords ?o1) demoHeapRed =
              (Inr [''1'', ''0'', ''0''], demoHeapRed)"
    by (simp add: demo_resolve functionFormat_def demo_serializeCoords demo_red demoNumber_def)
  have one: "serialize demoEnv (ColorRef 0) ?o1 demoHeap = (Inr ''color(--tagged 1 0 0)'', demoHeapRed)"
    using C3_functional_syntax [OF demo_getColor s0 r1 w1 t1 c1 refl refl refl refl]
    by (simp add: demo_resolve functionFormat_def demo_red serializeAlpha_def alphaFormatObject_def
        demo_opts)
  let ?o2 = "noOptions\<lparr>opt_format := Some ''rgba''\<rparr>"
  let ?f2 = "resolveFormat demoEnv 0 ''rgba''"
  have r2: "?f2 = resolveFormat demoEnv 0 (optFormat ?o2)"
    by (simp add: optFormat_def)
  have w2: "workingCoords demoEnv ?f2 (optInGamut ?o2) 0 1 demoHeap = (Inr (1, 4), demoHeapMapped)"
    by (rule demo_working_mapped)
       (simp_all add: demo_resolve functionFormat_def gamutFlag_def js_or_def optInGamut_def
          demo_opts)
  have t2: "f_type ?f2 \<noteq> Some ''custom''"
    by (simp add: demo_resolve functionFormat_def)
  have c2: "f_serializeCoords ?f2 4 (optPrecision demoEnv ?o2) (opt_coords ?o2) demoHeapMapped =
              (Inr [''1'', ''0'', ''0''], demoHeapMapped)"
    by (simp add: demo_resolve functionFormat_def demo_serializeCoords demo_mapped demoNumber_def)
  have two: "serialize demoEnv (ColorRef 1) ?o2 demoHeap = (Inr ''rgba(1, 0, 0, 0.5)'', demoHeapMapped)"
    using C3_functional_syntax [OF demo_getColor s1 r2 w2 t2 c2 refl refl refl refl]
    by (simp add: demo_resolve functionFormat_def demo_mapped_color serializeAlpha_def
        alphaFormatObject_def alphaText_def alphaType_def nullish_def optPrecision_def
        demo_opts demo_env demoNumber_def)
  let ?f3 = "functionFormat ''color'' 0"
  have r3: "?f3 = resolveFormat demoEnv 0 (optFormat noOptions)"
    by (simp add: demo_resolve_default optFormat_def demo_opts)
  have w3: "workingCoords demoEnv ?f3 (optInGamut noOptions) 0 1 demoHeap = (Inr (1, 4), demoHeapMapped)"
    by (rule demo_working_mapped)
       (simp_all add: functionFormat_def gamutFlag_def js_or_def optInGamut_def demo_opts)
  have t3: "f_type ?f3 \<noteq> Some ''custom''"
    by (simp add: functionFormat_def)
  have c3: "f_serializeCoords ?f3 4 (optPrecision demoEnv noOptions) (opt_coords noOptions)
              demoHeapMapped = (Inr [''1'', ''0'', ''0''], demoHeapMapped)"
    by (simp add: functionFormat_def demo_serializeCoords demo_mapped demoNumber_def)
  have three: "serialize demoEnv (ColorRef 1) noOptions demoHeap =
                 (Inr ''color(srgb 1 0 0 / 0.5)'', demoHeapMapped)"
    using C3_functional_syntax [OF demo_getColor s1 r3 w3 t3 c3 refl refl refl refl]
    by (simp add: functionFormat_def demo_mapped_color serializeAlpha_def
        alphaFormatObject_def alphaText_def alphaType_def nullish_def optPrecision_def
        demo_opts demo_env demoNumber_def)
  from one two three show ?thesis by simp
qed


text \<open>
  C3 as the specification states it fails: a \<^verbatim>\<open>color\<close> format with an id of its
  own puts that id first, not the CSS id or the plain id of the space.
\<close>

theorem C3_counterexample:
  "f_type (resolveFormat demoEnv 0 ''tagged'') \<noteq> Some ''custom'' \<and>
   f_name (resolveFormat demoEnv 0 ''tagged'') = Some ''color'' \<and>
   cssId demoEnv 0 = None \<and> space_id demoEnv 0 = ''srgb'' \<and>
   fst (serialize demoEnv (ColorRef 0) (noOptions\<lparr>opt_format := Some ''tagged''\<rparr>) demoHeap) =
     Inr ''color(--tagged 1 0 0)'' \<and>
   fst (serialize demoEnv (ColorRef 0) (noOptions\<lparr>opt_format := Some ''tagged''\<rparr>) demoHeap) \<noteq>
     Inr ''color(srgb 1 0 0)''"
  by (simp add: serialize_defs demo_defs run_defs)



section \<open>Alpha\<close>

text \<open>
  The string of a functional format, with the alpha suffix still to be decided.
\<close>

lemma serialize_functional:
  assumes "getColor env input h0 = (Inr c0, h1)"
    and "sp = space (colors h1 c0)"
    and "fmt = resolveFormat env sp (optFormat opts)"
    and "workingCoords env fmt (optInGamut opts) sp c0 h1 = (Inr (c, cs), h2)"
    and "f_type fmt \<noteq> Some ''custom''"
    and "f_serializeCoords fmt cs (optPrecision env opts) (opt_coords opts) h2 = (Inr args, h3)"
    and "body = functionName fmt @ ''('' @
                  join (if truthy (f_commas fmt) then '', '' else '' '')
                    (if functionName fmt = ''color''
                     then colorFunctionId env fmt (space (colors h3 c)) # args else args)"
  shows "serialize env input opts h0 =
           (Inr (body @ strAlpha env fmt (optPrecision env opts) (alphaFormatObject (opt_alpha opts))
                          (alpha (colors h3 c)) @ '')''), h3)"
proof -
  have "serialize env input opts h0 = render env fmt opts c cs h2"
    using assms(1-4) by (rule serialize_render)
  then show ?thesis
    using render_functional [OF assms(5,6)] assms(7) by simp
qed

lemma alphaFormatObject_simps:
  "alphaFormatObject JUndefined = JUndefined"
  "alphaFormatObject JNull = JNull"
  "alphaFormatObject (JBool b) = JObj [(''include'', JBool b)]"
  "alphaFormatObject (JStr s) = JObj [(''type'', JStr s)]"
  "alphaFormatObject (JObj kvs) = JObj kvs"
  by (simp_all add: alphaFormatObject_def)

lemma demo_default_format:
  assumes "opt_format opts = None"
  shows "functionFormat ''color'' 0 = resolveFormat demoEnv 0 (optFormat opts)"
  using assms by (simp add: optFormat_def demo_resolve_default)

lemma demo_color_red:
  "workingCoords demoEnv (functionFormat n 0) ig 0 0 demoHeap = (Inr (0, 3), demoHeapRed)"
  by (rule demo_working_red) (simp add: functionFormat_def)

lemma demo_color_mapped:
  assumes "truthy ig"
  shows "workingCoords demoEnv (functionFormat n 0) ig 0 1 demoHeap = (Inr (1, 4), demoHeapMapped)"
  using assms by (intro demo_working_mapped) (simp_all add: functionFormat_def gamutFlag_def js_or_def)

lemma demo_function_type: "f_type (functionFormat n sp) \<noteq> Some ''custom''"
  by (simp add: functionFormat_def)

lemma demo_coords_red:
  "f_serializeCoords (functionFormat n sp) 3 p cf demoHeapRed = (Inr [''1'', ''0'', ''0''], demoHeapRed)"
  by (simp add: functionFormat_def demo_serializeCoords demo_red demoNumber_def)

lemma demo_coords_mapped:
  "f_serializeCoords (functionFormat n sp) 4 p cf demoHeapMapped =
     (Inr [''1'', ''0'', ''0''], demoHeapMapped)"
  by (simp add: functionFormat_def demo_serializeCoords demo_mapped demoNumber_def)

lemma demo_space:
  "(0::nat) = space (colors demoHeap 0)"
  "(0::nat) = space (colors demoHeap 1)"
  by (simp_all add: demo_defs)

lemmas demo_render = functionFormat_def functionName_def colorFunctionId_def firstId_def
  str_truthy_def demo_env demo_red demo_mapped_color demo_copied optPrecision_def optInGamut_def
  demoNumber_def

lemma demo_custom_red:
  "workingCoords demoEnv (customFormat 0 hook) ig 0 0 demoHeap = (Inr (0, 3), demoHeapRed)"
  by (rule demo_working_red) (simp add: customFormat_def functionFormat_def)

lemma demo_custom_type: "f_type (customFormat sp hook) = Some ''custom''"
  by (simp add: customFormat_def)

text \<open>
  C4. For a format without an \<^verbatim>\<open>alpha\<close> flag and a call without an \<^verbatim>\<open>alpha\<close>
  option the suffix is there exactly when alpha is below 1. \<^verbatim>\<open>alpha: true\<close> puts it
  there whatever alpha is. With \<^verbatim>\<open>alpha: "<percentage>"\<close>, alpha one half and a
  precision that is not \<^verbatim>\<open>null\<close> the text of alpha is \<^verbatim>\<open>50%\<close>, given that the
  product of one half and 100 is 50 and that the number formatter writes 50 with the
  unit \<^verbatim>\<open>%\<close> as \<^verbatim>\<open>50%\<close>.
\<close>

theorem C4_alpha_policy:
  assumes "getColor env input h0 = (Inr c0, h1)"
    and "sp = space (colors h1 c0)"
    and "fmt = resolveFormat env sp (optFormat opts)"
    and "workingCoords env fmt (optInGamut opts) sp c0 h1 = (Inr (c, cs), h2)"
    and "f_type fmt \<noteq> Some ''custom''"
    and "f_serializeCoords fmt cs (optPrecision env opts) (opt_coords opts) h2 = (Inr args, h3)"
    and "body = functionName fmt @ ''('' @
                  join (if truthy (f_commas fmt) then '', '' else '' '')
                    (if functionName fmt = ''color''
                     then colorFunctionId env fmt (space (colors h3 c)) # args else args)"
    and "a = alpha (colors h3 c)"
    and "p = optPrecision env opts"
    and "sep = (if truthy (f_commas fmt) then '', '' else '' / '')"
    and "number = (if p \<noteq> JNull then serializeNumber env a p None else numberToString env a)"
  shows "(opt_alpha opts = JUndefined \<and> f_alpha fmt = JUndefined \<longrightarrow>
            serialize env input opts h0 =
              (Inr (body @ (if a < 1 then sep @ number else []) @ '')''), h3)) \<and>
         (opt_alpha opts = JBool True \<longrightarrow>
            serialize env input opts h0 = (Inr (body @ sep @ number @ '')''), h3)) \<and>
         (opt_alpha opts = JStr ''<percentage>'' \<and> f_alpha fmt = JUndefined \<and> a = 1/2 \<and>
          p \<noteq> JNull \<and> multiply env (1/2) 100 = 50 \<and>
          serializeNumber env 50 p (Some ''%'') = ''50%'' \<longrightarrow>
            serialize env input opts h0 = (Inr (body @ sep @ ''50%'' @ '')''), h3))"
proof (intro conjI impI)
  note s = serialize_functional [OF assms(1-7)]
  {
    assume "opt_alpha opts = JUndefined \<and> f_alpha fmt = JUndefined"
    then show "serialize env input opts h0 =
                 (Inr (body @ (if a < 1 then sep @ number else []) @ '')''), h3)"
      unfolding s assms(8-11)
      by (simp add: strAlpha_def serializeAlpha_def alphaText_def alphaType_def nullish_def
          alphaFormatObject_simps)
  next
    assume "opt_alpha opts = JBool True"
    then show "serialize env input opts h0 = (Inr (body @ sep @ number @ '')''), h3)"
      unfolding s assms(8-11)
      by (simp add: strAlpha_def serializeAlpha_def alphaText_def alphaType_def nullish_def
          alphaFormatObject_simps)
  next
    assume h: "opt_alpha opts = JStr ''<percentage>'' \<and> f_alpha fmt = JUndefined \<and> a = 1/2 \<and>
          p \<noteq> JNull \<and> multiply env (1/2) 100 = 50 \<and>
          serializeNumber env 50 p (Some ''%'') = ''50%''"
    then have half: "alpha (colors h3 c) = 1/2" and prec: "optPrecision env opts \<noteq> JNull"
      using assms(8,9) by simp_all
    have inc: "serializeAlpha (alphaFormatObject (opt_alpha opts)) fmt (1/2)"
      using h by (simp add: serializeAlpha_def alphaFormatObject_simps)
    have shown: "alphaText env (optPrecision env opts) (alphaFormatObject (opt_alpha opts)) (1/2) =
                 ''50%''"
      using h prec assms(9)
      by (simp add: alphaText_def alphaType_def nullish_def alphaFormatObject_simps)
    show "serialize env input opts h0 = (Inr (body @ sep @ ''50%'' @ '')''), h3)"
      unfolding s half assms(10)
      using inc shown by (simp add: strAlpha_def)
  }
qed

text \<open>
  The four calls of the specification's alpha policy: opaque red, a half transparent
  color, \<^verbatim>\<open>alpha: true\<close> on opaque red, \<^verbatim>\<open>alpha: "<percentage>"\<close>.
\<close>

theorem C4_alpha_policy_witness:
  "serialize demoEnv (ColorRef 0) noOptions demoHeap = (Inr ''color(srgb 1 0 0)'', demoHeapRed) \<and>
   serialize demoEnv (ColorRef 1) noOptions demoHeap =
     (Inr ''color(srgb 1 0 0 / 0.5)'', demoHeapMapped) \<and>
   serialize demoEnv (ColorRef 0) (noOptions\<lparr>opt_alpha := JBool True\<rparr>) demoHeap =
     (Inr ''color(srgb 1 0 0 / 1)'', demoHeapRed) \<and>
   serialize demoEnv (ColorRef 1) (noOptions\<lparr>opt_alpha := JStr ''<percentage>''\<rparr>) demoHeap =
     (Inr ''color(srgb 1 0 0 / 50%)'', demoHeapMapped)"
proof -
  let ?f = "functionFormat ''color'' 0"
  have r1: "?f = resolveFormat demoEnv 0 (optFormat noOptions)"
    by (rule demo_default_format) (simp add: noOptions_def)
  have w1: "workingCoords demoEnv ?f (optInGamut noOptions) 0 1 demoHeap = (Inr (1, 4), demoHeapMapped)"
    by (rule demo_color_mapped) (simp add: optInGamut_def noOptions_def)
  have one: "serialize demoEnv (ColorRef 0) noOptions demoHeap =
               (Inr ''color(srgb 1 0 0)'', demoHeapRed)"
    using C4_alpha_policy [OF demo_getColor demo_space(1) r1 demo_color_red demo_function_type
        demo_coords_red refl refl refl refl refl]
    by (simp add: demo_render noOptions_def)
  have two: "serialize demoEnv (ColorRef 1) noOptions demoHeap =
               (Inr ''color(srgb 1 0 0 / 0.5)'', demoHeapMapped)"
    using C4_alpha_policy [OF demo_getColor demo_space(2) r1 w1 demo_function_type
        demo_coords_mapped refl refl refl refl refl]
    by (simp add: demo_render noOptions_def)
  let ?o3 = "noOptions\<lparr>opt_alpha := JBool True\<rparr>"
  have r3: "?f = resolveFormat demoEnv 0 (optFormat ?o3)"
    by (rule demo_default_format) (simp add: noOptions_def)
  have three: "serialize demoEnv (ColorRef 0) ?o3 demoHeap =
                 (Inr ''color(srgb 1 0 0 / 1)'', demoHeapRed)"
    using C4_alpha_policy [OF demo_getColor demo_space(1) r3 demo_color_red demo_function_type
        demo_coords_red refl refl refl refl refl]
    by (simp add: demo_render noOptions_def)
  let ?o4 = "noOptions\<lparr>opt_alpha := JStr ''<percentage>''\<rparr>"
  have r4: "?f = resolveFormat demoEnv 0 (optFormat ?o4)"
    by (rule demo_default_format) (simp add: noOptions_def)
  have w4: "workingCoords demoEnv ?f (optInGamut ?o4) 0 1 demoHeap = (Inr (1, 4), demoHeapMapped)"
    by (rule demo_color_mapped) (simp add: optInGamut_def noOptions_def)
  have four: "serialize demoEnv (ColorRef 1) ?o4 demoHeap =
                (Inr ''color(srgb 1 0 0 / 50%)'', demoHeapMapped)"
    using C4_alpha_policy [OF demo_getColor demo_space(2) r4 w4 demo_function_type
        demo_coords_mapped refl refl refl refl refl]
    by (simp add: demo_render noOptions_def)
  from one two three four show ?thesis by simp
qed

text \<open>
  C5, as the code has it. Alpha is included when the call says \<^verbatim>\<open>include: true\<close> or
  the format's \<^verbatim>\<open>alpha\<close> flag is \<^verbatim>\<open>true\<close>; otherwise it is left out when the call
  says \<^verbatim>\<open>include: false\<close> or the format's flag is \<^verbatim>\<open>false\<close>; otherwise it is
  included exactly when alpha is below 1. So \<^verbatim>\<open>include: false\<close> leaves the suffix out
  unless the format's flag is \<^verbatim>\<open>true\<close>, and a format whose flag is \<^verbatim>\<open>true\<close> always
  writes alpha.
\<close>

theorem C5_alpha_precedence:
  assumes "getColor env input h0 = (Inr c0, h1)"
    and "sp = space (colors h1 c0)"
    and "fmt = resolveFormat env sp (optFormat opts)"
    and "workingCoords env fmt (optInGamut opts) sp c0 h1 = (Inr (c, cs), h2)"
    and "f_type fmt \<noteq> Some ''custom''"
    and "f_serializeCoords fmt cs (optPrecision env opts) (opt_coords opts) h2 = (Inr args, h3)"
    and "body = functionName fmt @ ''('' @
                  join (if truthy (f_commas fmt) then '', '' else '' '')
                    (if functionName fmt = ''color''
                     then colorFunctionId env fmt (space (colors h3 c)) # args else args)"
    and "a = alpha (colors h3 c)"
    and "include = opt_chain (alphaFormatObject (opt_alpha opts)) ''include''"
    and "suffix = (if truthy (f_commas fmt) then '', '' else '' / '') @
                  alphaText env (optPrecision env opts) (alphaFormatObject (opt_alpha opts)) a"
  shows "serialize env input opts h0 =
           (Inr (body @
                 (if include = JBool True \<or> f_alpha fmt = JBool True then suffix
                  else if include = JBool False \<or> f_alpha fmt = JBool False then []
                  else if a < 1 then suffix else []) @ '')''), h3) \<and>
         (include = JBool False \<and> f_alpha fmt \<noteq> JBool True \<longrightarrow>
            serialize env input opts h0 = (Inr (body @ '')''), h3)) \<and>
         (f_alpha fmt = JBool True \<longrightarrow>
            serialize env input opts h0 = (Inr (body @ suffix @ '')''), h3))"
proof -
  note s = serialize_functional [OF assms(1-7)]
  show ?thesis
    unfolding s assms(8-10)
    by (auto simp: strAlpha_def serializeAlpha_def)
qed

text \<open>
  \<^verbatim>\<open>alpha: false\<close> on a half transparent color in the default format, on opaque red
  in \<^verbatim>\<open>rgba\<close>, whose flag is \<^verbatim>\<open>true\<close>, and \<^verbatim>\<open>{include: true}\<close> on opaque red.
\<close>

theorem C5_alpha_precedence_witness:
  "serialize demoEnv (ColorRef 1) (noOptions\<lparr>opt_alpha := JBool False\<rparr>) demoHeap =
     (Inr ''color(srgb 1 0 0)'', demoHeapMapped) \<and>
   serialize demoEnv (ColorRef 0)
       (noOptions\<lparr>opt_format := Some ''rgba'', opt_alpha := JBool False\<rparr>) demoHeap =
     (Inr ''rgba(1, 0, 0, 1)'', demoHeapRed) \<and>
   serialize demoEnv (ColorRef 0) (noOptions\<lparr>opt_alpha := JObj [(''include'', JBool True)]\<rparr>)
       demoHeap =
     (Inr ''color(srgb 1 0 0 / 1)'', demoHeapRed)"
proof -
  let ?f = "functionFormat ''color'' 0"
  let ?o1 = "noOptions\<lparr>opt_alpha := JBool False\<rparr>"
  have r1: "?f = resolveFormat demoEnv 0 (optFormat ?o1)"
    by (rule demo_default_format) (simp add: noOptions_def)
  have w1: "workingCoords demoEnv ?f (optInGamut ?o1) 0 1 demoHeap = (Inr (1, 4), demoHeapMapped)"
    by (rule demo_color_mapped) (simp add: optInGamut_def noOptions_def)
  have one: "serialize demoEnv (ColorRef 1) ?o1 demoHeap =
               (Inr ''color(srgb 1 0 0)'', demoHeapMapped)"
    using C5_alpha_precedence [OF demo_getColor demo_space(2) r1 w1 demo_function_type
        demo_coords_mapped refl refl refl refl]
    by (simp add: demo_render alphaFormatObject_simps)
  let ?o2 = "noOptions\<lparr>opt_format := Some ''rgba'', opt_alpha := JBool False\<rparr>"
  let ?f2 = "(functionFormat ''rgba'' 0)\<lparr>f_commas := JBool True, f_alpha := JBool True\<rparr>"
  have r2: "?f2 = resolveFormat demoEnv 0 (optFormat ?o2)"
    by (simp add: optFormat_def demo_resolve)
  have w2: "workingCoords demoEnv ?f2 (optInGamut ?o2) 0 0 demoHeap = (Inr (0, 3), demoHeapRed)"
    by (rule demo_working_red) (simp add: functionFormat_def)
  have t2: "f_type ?f2 \<noteq> Some ''custom''"
    by (simp add: functionFormat_def)
  have c2: "f_serializeCoords ?f2 3 (optPrecision demoEnv ?o2) (opt_coords ?o2) demoHeapRed =
              (Inr [''1'', ''0'', ''0''], demoHeapRed)"
    by (simp add: functionFormat_def demo_serializeCoords demo_red demoNumber_def)
  have two: "serialize demoEnv (ColorRef 0) ?o2 demoHeap = (Inr ''rgba(1, 0, 0, 1)'', demoHeapRed)"
    using C5_alpha_precedence [OF demo_getColor demo_space(1) r2 w2 t2 c2 refl refl refl refl]
    by (simp add: demo_render alphaFormatObject_simps alphaText_def alphaType_def nullish_def
        noOptions_def)
  let ?o3 = "noOptions\<lparr>opt_alpha := JObj [(''include'', JBool True)]\<rparr>"
  have r3: "?f = resolveFormat demoEnv 0 (optFormat ?o3)"
    by (rule demo_default_format) (simp add: noOptions_def)
  have three: "serialize demoEnv (ColorRef 0) ?o3 demoHeap =
                 (Inr ''color(srgb 1 0 0 / 1)'', demoHeapRed)"
    using C5_alpha_precedence [OF demo_getColor demo_space(1) r3 demo_color_red demo_function_type
        demo_coords_red refl refl refl refl]
    by (simp add: demo_render alphaFormatObject_simps alphaText_def alphaType_def nullish_def
        noOptions_def)
  from one two three show ?thesis by simp
qed

text \<open>
  C5 as the specification states it fails: the \<^verbatim>\<open>alpha\<close> flag of \<^verbatim>\<open>rgba\<close> is
  \<^verbatim>\<open>true\<close>, and the suffix is written although the call says \<^verbatim>\<open>include: false\<close>.
\<close>

theorem C5_counterexample:
  "f_alpha (resolveFormat demoEnv 0 ''rgba'') = JBool True \<and>
   fst (serialize demoEnv (ColorRef 0)
          (noOptions\<lparr>opt_format := Some ''rgba'', opt_alpha := JObj [(''include'', JBool False)]\<rparr>)
          demoHeap) = Inr ''rgba(1, 0, 0, 1)'' \<and>
   fst (serialize demoEnv (ColorRef 0)
          (noOptions\<lparr>opt_format := Some ''rgba'', opt_alpha := JBool False\<rparr>)
          demoHeap) = Inr ''rgba(1, 0, 0, 1)''"
  by (simp add: serialize_defs demo_defs run_defs)

text \<open>
  C7. When alpha is included and the precision is not \<^verbatim>\<open>null\<close>, alpha is multiplied
  by 100 and given the unit \<^verbatim>\<open>%\<close> exactly when the resolved alpha type is
  \<^verbatim>\<open><percentage>\<close>, and is then handed to the number formatter with the precision.
  When the precision is \<^verbatim>\<open>null\<close> the number itself is written, percentage or not.
\<close>

theorem C7_alpha_text:
  assumes "getColor env input h0 = (Inr c0, h1)"
    and "sp = space (colors h1 c0)"
    and "fmt = resolveFormat env sp (optFormat opts)"
    and "workingCoords env fmt (optInGamut opts) sp c0 h1 = (Inr (c, cs), h2)"
    and "f_type fmt \<noteq> Some ''custom''"
    and "f_serializeCoords fmt cs (optPrecision env opts) (opt_coords opts) h2 = (Inr args, h3)"
    and "body = functionName fmt @ ''('' @
                  join (if truthy (f_commas fmt) then '', '' else '' '')
                    (if functionName fmt = ''color''
                     then colorFunctionId env fmt (space (colors h3 c)) # args else args)"
    and "a = alpha (colors h3 c)"
    and "p = optPrecision env opts"
    and "sep = (if truthy (f_commas fmt) then '', '' else '' / '')"
    and "ty = alphaType (alphaFormatObject (opt_alpha opts))"
    and "serializeAlpha (alphaFormatObject (opt_alpha opts)) fmt a"
  shows "serialize env input opts h0 =
           (Inr (body @ sep @
                 (if p \<noteq> JNull
                  then (if ty = JStr ''<percentage>''
                        then serializeNumber env (multiply env a 100) p (Some ''%'')
                        else serializeNumber env a p None)
                  else numberToString env a) @ '')''), h3)"
proof -
  note s = serialize_functional [OF assms(1-7)]
  show ?thesis
    unfolding s
    using assms(12)
    by (simp add: assms(8-11) strAlpha_def alphaText_def)
qed


text \<open>
  A percentage with the default precision, a percentage with precision \<^verbatim>\<open>null\<close>, and
  no alpha option.
\<close>

theorem C7_alpha_text_witness:
  "serialize demoEnv (ColorRef 1) (noOptions\<lparr>opt_alpha := JStr ''<percentage>''\<rparr>) demoHeap =
     (Inr ''color(srgb 1 0 0 / 50%)'', demoHeapMapped) \<and>
   serialize demoEnv (ColorRef 1)
       (noOptions\<lparr>opt_precision := JNull, opt_alpha := JStr ''<percentage>''\<rparr>) demoHeap =
     (Inr ''color(srgb 1 0 0 / 0.5)'', demoHeapMapped) \<and>
   serialize demoEnv (ColorRef 1) noOptions demoHeap =
     (Inr ''color(srgb 1 0 0 / 0.5)'', demoHeapMapped)"
proof -
  let ?f = "functionFormat ''color'' 0"
  let ?o1 = "noOptions\<lparr>opt_alpha := JStr ''<percentage>''\<rparr>"
  have r1: "?f = resolveFormat demoEnv 0 (optFormat ?o1)"
    by (rule demo_default_format) (simp add: noOptions_def)
  have w1: "workingCoords demoEnv ?f (optInGamut ?o1) 0 1 demoHeap = (Inr (1, 4), demoHeapMapped)"
    by (rule demo_color_mapped) (simp add: optInGamut_def noOptions_def)
  have i1: "serializeAlpha (alphaFormatObject (opt_alpha ?o1)) ?f (alpha (colors demoHeapMapped 1))"
    by (simp add: serializeAlpha_def alphaFormatObject_simps functionFormat_def demo_mapped_color)
  have one: "serialize demoEnv (ColorRef 1) ?o1 demoHeap =
               (Inr ''color(srgb 1 0 0 / 50%)'', demoHeapMapped)"
    using C7_alpha_text [OF demo_getColor demo_space(2) r1 w1 demo_function_type
        demo_coords_mapped refl refl refl refl refl i1]
    by (simp add: demo_render alphaFormatObject_simps alphaType_def nullish_def noOptions_def)
  let ?o2 = "noOptions\<lparr>opt_precision := JNull, opt_alpha := JStr ''<percentage>''\<rparr>"
  have r2: "?f = resolveFormat demoEnv 0 (optFormat ?o2)"
    by (rule demo_default_format) (simp add: noOptions_def)
  have w2: "workingCoords demoEnv ?f (optInGamut ?o2) 0 1 demoHeap = (Inr (1, 4), demoHeapMapped)"
    by (rule demo_color_mapped) (simp add: optInGamut_def noOptions_def)
  have i2: "serializeAlpha (alphaFormatObject (opt_alpha ?o2)) ?f (alpha (colors demoHeapMapped 1))"
    by (simp add: serializeAlpha_def alphaFormatObject_simps functionFormat_def demo_mapped_color)
  have two: "serialize demoEnv (ColorRef 1) ?o2 demoHeap =
               (Inr ''color(srgb 1 0 0 / 0.5)'', demoHeapMapped)"
    using C7_alpha_text [OF demo_getColor demo_space(2) r2 w2 demo_function_type
        demo_coords_mapped refl refl refl refl refl i2]
    by (simp add: demo_render alphaFormatObject_simps alphaType_def nullish_def noOptions_def)
  have r3: "?f = resolveFormat demoEnv 0 (optFormat noOptions)"
    by (rule demo_default_format) (simp add: noOptions_def)
  have w3: "workingCoords demoEnv ?f (optInGamut noOptions) 0 1 demoHeap = (Inr (1, 4), demoHeapMapped)"
    by (rule demo_color_mapped) (simp add: optInGamut_def noOptions_def)
  have i3: "serializeAlpha (alphaFormatObject (opt_alpha noOptions)) ?f
              (alpha (colors demoHeapMapped 1))"
    by (simp add: serializeAlpha_def alphaFormatObject_simps functionFormat_def demo_mapped_color
        noOptions_def)
  have three: "serialize demoEnv (ColorRef 1) noOptions demoHeap =
                 (Inr ''color(srgb 1 0 0 / 0.5)'', demoHeapMapped)"
    using C7_alpha_text [OF demo_getColor demo_space(2) r3 w3 demo_function_type
        demo_coords_mapped refl refl refl refl refl i3]
    by (simp add: demo_render alphaFormatObject_simps alphaType_def nullish_def noOptions_def)
  from one two three show ?thesis by simp
qed


section \<open>Custom formats\<close>

text \<open>
  C8, as the code has it. For a custom format the result of \<open>serialize\<close> is the
  result of the format's \<^verbatim>\<open>serialize\<close> hook on the working coordinates, the alpha of
  the color and the options of the call. A custom format without the hook makes
  \<open>serialize\<close> throw a \<^verbatim>\<open>TypeError\<close> that names the format id; no string is
  returned.
\<close>

theorem C8_custom_format:
  assumes "getColor env input h0 = (Inr c0, h1)"
    and "sp = space (colors h1 c0)"
    and "fmt = resolveFormat env sp (optFormat opts)"
    and "workingCoords env fmt (optInGamut opts) sp c0 h1 = (Inr (c, cs), h2)"
    and "f_type fmt = Some ''custom''"
    and "formatId = (case opt_format opts of None \<Rightarrow> ''default'' | Some i \<Rightarrow> i)"
  shows "(\<forall>hook. f_serialize fmt = Some hook \<longrightarrow>
            serialize env input opts h0 = hook cs (alpha (colors h2 c)) opts h2) \<and>
         (f_serialize fmt = None \<longrightarrow>
            serialize env input opts h0 =
              (Inl (JsError ''TypeError''
                 (''format '' @ formatId @ '' can only be used to parse colors, not for serialization'')),
               h2))"
proof -
  have "serialize env input opts h0 = render env fmt opts c cs h2"
    using assms(1-4) by (rule serialize_render)
  then show ?thesis
    using assms(5,6)
    by (simp add: render_custom_hook render_custom_parse_only optFormat_def)
qed

text \<open>
  \<^verbatim>\<open>hex\<close> has a hook and \<^verbatim>\<open>keyword\<close> has none.
\<close>

theorem C8_custom_format_witness:
  "serialize demoEnv (ColorRef 0) (noOptions\<lparr>opt_format := Some ''hex''\<rparr>) demoHeap =
     demoHook 3 1 (noOptions\<lparr>opt_format := Some ''hex''\<rparr>) demoHeapRed \<and>
   fst (demoHook 3 1 (noOptions\<lparr>opt_format := Some ''hex''\<rparr>) demoHeapRed) =
     Inr ''custom:1|0|0|1'' \<and>
   serialize demoEnv (ColorRef 0) (noOptions\<lparr>opt_format := Some ''keyword''\<rparr>) demoHeap =
     (Inl (JsError ''TypeError''
        ''format keyword can only be used to parse colors, not for serialization''), demoHeapRed)"
proof -
  let ?o1 = "noOptions\<lparr>opt_format := Some ''hex''\<rparr>"
  have r1: "customFormat 0 (Some demoHook) = resolveFormat demoEnv 0 (optFormat ?o1)"
    by (simp add: optFormat_def demo_resolve)
  have one: "serialize demoEnv (ColorRef 0) ?o1 demoHeap = demoHook 3 1 ?o1 demoHeapRed"
    using C8_custom_format [OF demo_getColor demo_space(1) r1 demo_custom_red demo_custom_type refl]
    by (simp add: customFormat_def demo_red)
  have out: "fst (demoHook 3 1 ?o1 demoHeapRed) = Inr ''custom:1|0|0|1''"
    by (simp add: demoHook_def demo_red demoNumber_def)
  let ?o2 = "noOptions\<lparr>opt_format := Some ''keyword''\<rparr>"
  have r2: "customFormat 0 None = resolveFormat demoEnv 0 (optFormat ?o2)"
    by (simp add: optFormat_def demo_resolve)
  have two: "serialize demoEnv (ColorRef 0) ?o2 demoHeap =
     (Inl (JsError ''TypeError''
        ''format keyword can only be used to parse colors, not for serialization''), demoHeapRed)"
    using C8_custom_format [OF demo_getColor demo_space(1) r2 demo_custom_red demo_custom_type refl]
    by (simp add: customFormat_def)
  from one out two show ?thesis by simp
qed

text \<open>
  C8 as the specification states it fails in the class of the error: the code throws
  a \<^verbatim>\<open>TypeError\<close>, not an \<^verbatim>\<open>UnsupportedOperationError\<close>.
\<close>

theorem C8_counterexample:
  "f_type (resolveFormat demoEnv 0 ''keyword'') = Some ''custom'' \<and>
   f_serialize (resolveFormat demoEnv 0 ''keyword'') = None \<and>
   fst (serialize demoEnv (ColorRef 0) (noOptions\<lparr>opt_format := Some ''keyword''\<rparr>) demoHeap) =
     Inl (JsError ''TypeError''
            ''format keyword can only be used to parse colors, not for serialization'') \<and>
   err_name (JsError ''TypeError''
            ''format keyword can only be used to parse colors, not for serialization'') \<noteq>
     ''UnsupportedOperationError''"
  by (simp add: serialize_defs demo_defs run_defs)

text \<open>
  C10. When the coordinates are replaced by those of the result of \<^verbatim>\<open>toGamut\<close>, the
  alpha handed to the hook of a custom format, and the alpha a functional format
  renders, is still the \<^verbatim>\<open>alpha\<close> field of the (possibly converted) color: the
  result of \<^verbatim>\<open>toGamut\<close> only gives its coordinates.
\<close>

theorem C10_alpha_not_mapped:
  assumes "getColor env input h0 = (Inr c0, h1)"
    and "sp = space (colors h1 c0)"
    and "fmt = resolveFormat env sp (optFormat opts)"
    and "convertToFormatSpace env fmt sp c0 h1 = (Inr c, h2)"
    and "slice (coords (colors h2 c)) h2 = (Inr cs0, h3)"
    and "flag = gamutFlag (optInGamut opts) fmt"
    and "truthy flag"
    and "checkInGamut env c h3 = (Inr False, h4)"
    and "clone env c h4 = (Inr cl, h5)"
    and "toGamut env cl (if flag = JBool True then JUndefined else flag) h5 = (Inr g, h6)"
  shows "(\<forall>hook. f_type fmt = Some ''custom'' \<and> f_serialize fmt = Some hook \<longrightarrow>
            serialize env input opts h0 =
              hook (coords (colors h6 g)) (alpha (colors h6 c)) opts h6) \<and>
         (\<forall>args h7.
            f_type fmt \<noteq> Some ''custom'' \<and>
            f_serializeCoords fmt (coords (colors h6 g)) (optPrecision env opts) (opt_coords opts) h6 =
              (Inr args, h7) \<longrightarrow>
            serialize env input opts h0 =
              (Inr (functionName fmt @ ''('' @
                    join (if truthy (f_commas fmt) then '', '' else '' '')
                      (if functionName fmt = ''color''
                       then colorFunctionId env fmt (space (colors h7 c)) # args else args) @
                    strAlpha env fmt (optPrecision env opts) (alphaFormatObject (opt_alpha opts))
                      (alpha (colors h7 c)) @ '')''), h7))"
proof -
  have t: "truthy (gamutFlag (optInGamut opts) fmt)"
    using assms(6,7) by simp
  have m: "toGamut env cl (if gamutFlag (optInGamut opts) fmt = JBool True then JUndefined
             else gamutFlag (optInGamut opts) fmt) h5 = (Inr g, h6)"
    using assms(10) unfolding assms(6) .
  have w: "workingCoords env fmt (optInGamut opts) sp c0 h1 = (Inr (c, coords (colors h6 g)), h6)"
    by (rule workingCoords_mapped [OF assms(4,5) t assms(8,9) m])
  have s: "serialize env input opts h0 = render env fmt opts c (coords (colors h6 g)) h6"
    using assms(1-3) w by (rule serialize_render)
  show ?thesis
    unfolding s by (simp add: render_custom_hook render_functional)
qed

text \<open>
  The gamut mapper of the registry sets the alpha of the clone to 1; the alpha that is
  written is one half, the alpha of the color.
\<close>

theorem C10_alpha_not_mapped_witness:
  "alpha (colors demoHeapMapped 4) = 1 \<and> alpha (colors demoHeapMapped 1) = 1/2 \<and>
   serialize demoEnv (ColorRef 1) (noOptions\<lparr>opt_format := Some ''hex''\<rparr>) demoHeap =
     demoHook 4 (1/2) (noOptions\<lparr>opt_format := Some ''hex''\<rparr>) demoHeapMapped \<and>
   fst (demoHook 4 (1/2) (noOptions\<lparr>opt_format := Some ''hex''\<rparr>) demoHeapMapped) =
     Inr ''custom:1|0|0|0.5'' \<and>
   serialize demoEnv (ColorRef 1) noOptions demoHeap =
     (Inr ''color(srgb 1 0 0 / 0.5)'', demoHeapMapped)"
proof -
  let ?o1 = "noOptions\<lparr>opt_format := Some ''hex''\<rparr>"
  let ?f1 = "customFormat 0 (Some demoHook)"
  have r1: "?f1 = resolveFormat demoEnv 0 (optFormat ?o1)"
    by (simp add: optFormat_def demo_resolve)
  have c1: "convertToFormatSpace demoEnv ?f1 0 1 demoHeap = (Inr 1, demoHeap)"
    by (simp add: convertToFormatSpace_def customFormat_def functionFormat_def js_return_def)
  have f1: "JBool True = gamutFlag (optInGamut ?o1) ?f1"
    by (simp add: gamutFlag_def js_or_def optInGamut_def noOptions_def)
  have g1: "toGamut demoEnv 4 (if JBool True = JBool True then JUndefined else JBool True)
              demoHeapCloned = (Inr 4, demoHeapMapped)"
    by (simp add: demo_toGamut)
  have a: "alpha (colors demoHeapMapped 4) = 1"
    by (simp add: demo_heaps demo_defs slice_def)
  have one: "serialize demoEnv (ColorRef 1) ?o1 demoHeap = demoHook 4 (1/2) ?o1 demoHeapMapped"
    using C10_alpha_not_mapped [OF demo_getColor demo_space(2) r1 c1 demo_slice f1 _ demo_check
        demo_clone g1]
    by (simp add: customFormat_def demo_mapped demo_mapped_color)
  have out: "fst (demoHook 4 (1/2) ?o1 demoHeapMapped) = Inr ''custom:1|0|0|0.5''"
    by (simp add: demoHook_def demo_mapped demoNumber_def)
  let ?f2 = "functionFormat ''color'' 0"
  have r2: "?f2 = resolveFormat demoEnv 0 (optFormat noOptions)"
    by (rule demo_default_format) (simp add: noOptions_def)
  have f2: "JBool True = gamutFlag (optInGamut noOptions) ?f2"
    by (simp add: gamutFlag_def js_or_def optInGamut_def noOptions_def)
  have two: "serialize demoEnv (ColorRef 1) noOptions demoHeap =
               (Inr ''color(srgb 1 0 0 / 0.5)'', demoHeapMapped)"
    using C10_alpha_not_mapped [OF demo_getColor demo_space(2) r2 demo_no_conversion demo_slice f2 _
        demo_check demo_clone g1] demo_coords_mapped [of "''color''" 0]
    by (simp add: demo_mapped demo_render strAlpha_def serializeAlpha_def alphaText_def
        alphaType_def nullish_def alphaFormatObject_simps noOptions_def)
  from a one out two show ?thesis by (simp add: demo_mapped_color)
qed


section \<open>The \<^verbatim>\<open>inGamut\<close> option\<close>

text \<open>
  The copy has the elements of the array it was taken from, which stays as it was.
\<close>

lemma slice_copy:
  assumes "slice a h = (Inr cs, h')"
  shows "arrays h' cs = arrays h a" and "colors h' = colors h" and "arrays h' a = arrays h a"
  using assms by (auto simp: slice_def)

lemma demo_checker:
  "checkInGamut demoEnv a h = (Inr (list_all inUnit (arrays h (coords (colors h a)))), h)"
  by (simp add: demoEnv_def demoCheckInGamut_def js_read_def)

text \<open>
  C6, as the code has it. With \<^verbatim>\<open>inGamut: false\<close> and a format whose \<^verbatim>\<open>toGamut\<close>
  default is falsy, the coordinates that are rendered are a copy of the raw ones and the
  gamut is not checked. With \<^verbatim>\<open>inGamut: true\<close>, and also with \<^verbatim>\<open>inGamut: false\<close>
  when the \<^verbatim>\<open>toGamut\<close> default of the format is truthy, a color that fails the gamut
  check is rendered with the coordinates of the result of \<^verbatim>\<open>toGamut\<close>. Those pass the
  gamut check and differ from the raw ones whenever the gamut check is a predicate
  \<open>inG\<close> of the space and the coordinates and the gamut mapper returns a color of the
  same space that satisfies it.
\<close>

theorem C6_inGamut_option:
  assumes "getColor env input h0 = (Inr c0, h1)"
    and "sp = space (colors h1 c0)"
    and "fmt = resolveFormat env sp (optFormat opts)"
    and "convertToFormatSpace env fmt sp c0 h1 = (Inr c, h2)"
    and "slice (coords (colors h2 c)) h2 = (Inr cs0, h3)"
    and "raw = arrays h2 (coords (colors h2 c))"
  shows "(opt_inGamut opts = JBool False \<and> \<not> truthy (f_toGamut fmt) \<longrightarrow>
            serialize env input opts h0 = render env fmt opts c cs0 h3 \<and> arrays h3 cs0 = raw) \<and>
         (\<forall>h4 cl h5 g h6 selector inG.
            (opt_inGamut opts = JBool True \<and> selector = JUndefined \<or>
             opt_inGamut opts = JBool False \<and> truthy (f_toGamut fmt) \<and>
             selector = (if f_toGamut fmt = JBool True then JUndefined else f_toGamut fmt)) \<and>
            checkInGamut env c h3 = (Inr False, h4) \<and>
            clone env c h4 = (Inr cl, h5) \<and>
            toGamut env cl selector h5 = (Inr g, h6) \<longrightarrow>
            serialize env input opts h0 = render env fmt opts c (coords (colors h6 g)) h6 \<and>
            ((\<forall>a h. checkInGamut env a h =
                      (Inr (inG (space (colors h a)) (arrays h (coords (colors h a)))), h)) \<and>
             space (colors h6 g) = space (colors h2 c) \<and>
             inG (space (colors h6 g)) (arrays h6 (coords (colors h6 g))) \<longrightarrow>
             inG (space (colors h2 c)) (arrays h6 (coords (colors h6 g))) \<and>
             arrays h6 (coords (colors h6 g)) \<noteq> raw))"
proof (intro conjI allI impI)
  have s: "serialize env input opts h0 = serializeWith env opts fmt sp c0 h1"
    using assms(1-3) by (simp add: serialize_run)
  note copy = slice_copy [OF assms(5)]
  {
    assume a: "opt_inGamut opts = JBool False \<and> \<not> truthy (f_toGamut fmt)"
    then have "\<not> truthy (gamutFlag (optInGamut opts) fmt)"
      by (simp add: gamutFlag_def optInGamut_def js_or_def)
    then show "serialize env input opts h0 = render env fmt opts c cs0 h3"
      unfolding s using assms(4,5) by (simp add: serializeWith_run workingCoords_unchecked)
    show "arrays h3 cs0 = raw"
      using copy(1) assms(6) by simp
  }
  fix h4 cl h5 g h6 selector and inG :: "space_ref \<Rightarrow> jsval list \<Rightarrow> bool"
  assume run: "(opt_inGamut opts = JBool True \<and> selector = JUndefined \<or>
             opt_inGamut opts = JBool False \<and> truthy (f_toGamut fmt) \<and>
             selector = (if f_toGamut fmt = JBool True then JUndefined else f_toGamut fmt)) \<and>
            checkInGamut env c h3 = (Inr False, h4) \<and>
            clone env c h4 = (Inr cl, h5) \<and>
            toGamut env cl selector h5 = (Inr g, h6)"
  then have flag: "truthy (gamutFlag (optInGamut opts) fmt)"
    and selector: "selector = (if gamutFlag (optInGamut opts) fmt = JBool True then JUndefined
                           else gamutFlag (optInGamut opts) fmt)"
    by (auto simp: gamutFlag_def optInGamut_def js_or_def)
  have m: "toGamut env cl (if gamutFlag (optInGamut opts) fmt = JBool True then JUndefined
                           else gamutFlag (optInGamut opts) fmt) h5 = (Inr g, h6)"
    using run selector by simp
  from run have ck: "checkInGamut env c h3 = (Inr False, h4)"
    and cln: "clone env c h4 = (Inr cl, h5)"
    by simp_all
  have w: "workingCoords env fmt (optInGamut opts) sp c0 h1 = (Inr (c, coords (colors h6 g)), h6)"
    by (rule workingCoords_mapped [OF assms(4,5) flag ck cln m])
  show "serialize env input opts h0 = render env fmt opts c (coords (colors h6 g)) h6"
    unfolding s using w by (rule serializeWith_run)
  {
    assume contract: "(\<forall>a h. checkInGamut env a h =
                      (Inr (inG (space (colors h a)) (arrays h (coords (colors h a)))), h)) \<and>
             space (colors h6 g) = space (colors h2 c) \<and>
             inG (space (colors h6 g)) (arrays h6 (coords (colors h6 g)))"
    then have "checkInGamut env c h3 =
                 (Inr (inG (space (colors h3 c)) (arrays h3 (coords (colors h3 c)))), h3)"
      by blast
    then have "\<not> inG (space (colors h3 c)) (arrays h3 (coords (colors h3 c)))"
      using ck by simp
    then have out: "\<not> inG (space (colors h2 c)) raw"
      using copy(2,3) assms(6) by simp
    from contract have same: "space (colors h6 g) = space (colors h2 c)"
      and mapped: "inG (space (colors h6 g)) (arrays h6 (coords (colors h6 g)))"
      by blast+
    from mapped have inside: "inG (space (colors h2 c)) (arrays h6 (coords (colors h6 g)))"
      unfolding same .
    then show "inG (space (colors h2 c)) (arrays h6 (coords (colors h6 g)))" .
    from out inside show "arrays h6 (coords (colors h6 g)) \<noteq> raw"
      by auto
  }
qed

text \<open>
  The color outside the gamut: with \<^verbatim>\<open>inGamut: false\<close> in the default format, with
  \<^verbatim>\<open>inGamut: true\<close>, and with \<^verbatim>\<open>inGamut: false\<close> in \<^verbatim>\<open>rgb\<close>, whose \<^verbatim>\<open>toGamut\<close>
  default is \<^verbatim>\<open>true\<close>.
\<close>

theorem C6_inGamut_option_witness:
  "serialize demoEnv (ColorRef 1) (noOptions\<lparr>opt_inGamut := JBool False\<rparr>) demoHeap =
     render demoEnv (functionFormat ''color'' 0) (noOptions\<lparr>opt_inGamut := JBool False\<rparr>) 1 3
       demoHeapCopied \<and>
   arrays demoHeapCopied 3 = [JNum (6/5), JNum 0, JNum 0] \<and>
   serialize demoEnv (ColorRef 1) (noOptions\<lparr>opt_inGamut := JBool True\<rparr>) demoHeap =
     render demoEnv (functionFormat ''color'' 0) (noOptions\<lparr>opt_inGamut := JBool True\<rparr>) 1 4
       demoHeapMapped \<and>
   list_all inUnit (arrays demoHeapMapped 4) \<and>
   arrays demoHeapMapped 4 \<noteq> [JNum (6/5), JNum 0, JNum 0] \<and>
   serialize demoEnv (ColorRef 1)
       (noOptions\<lparr>opt_format := Some ''rgb'', opt_inGamut := JBool False\<rparr>) demoHeap =
     render demoEnv (resolveFormat demoEnv 0 ''rgb'')
       (noOptions\<lparr>opt_format := Some ''rgb'', opt_inGamut := JBool False\<rparr>) 1 4 demoHeapMapped"
proof -
  let ?f = "functionFormat ''color'' 0"
  have raw: "[JNum (6/5), JNum 0, JNum 0] = arrays demoHeap (coords (colors demoHeap 1))"
    by (simp add: demo_defs)
  let ?o1 = "noOptions\<lparr>opt_inGamut := JBool False\<rparr>"
  have r1: "?f = resolveFormat demoEnv 0 (optFormat ?o1)"
    by (rule demo_default_format) (simp add: noOptions_def)
  have one: "serialize demoEnv (ColorRef 1) ?o1 demoHeap = render demoEnv ?f ?o1 1 3 demoHeapCopied \<and>
             arrays demoHeapCopied 3 = [JNum (6/5), JNum 0, JNum 0]"
    using C6_inGamut_option [OF demo_getColor demo_space(2) r1 demo_no_conversion demo_slice raw]
    by (simp add: functionFormat_def)
  let ?o2 = "noOptions\<lparr>opt_inGamut := JBool True\<rparr>"
  have r2: "?f = resolveFormat demoEnv 0 (optFormat ?o2)"
    by (rule demo_default_format) (simp add: noOptions_def)
  note C6_inGamut_option [OF demo_getColor demo_space(2) r2 demo_no_conversion demo_slice raw,
      THEN conjunct2, rule_format,
      where ?h4.0 = demoHeapCopied and cl = 4 and ?h5.0 = demoHeapCloned and g = 4
        and ?h6.0 = demoHeapMapped and selector = JUndefined
        and inG = "\<lambda>sp cs. list_all inUnit cs"]
  then have two: "serialize demoEnv (ColorRef 1) ?o2 demoHeap =
                    render demoEnv ?f ?o2 1 4 demoHeapMapped \<and>
                  list_all inUnit (arrays demoHeapMapped 4) \<and>
                  arrays demoHeapMapped 4 \<noteq> [JNum (6/5), JNum 0, JNum 0]"
    using demo_check demo_clone demo_toGamut demo_checker
    by (simp add: demo_mapped demo_mapped_color demo_heaps demo_defs slice_def)
  let ?o3 = "noOptions\<lparr>opt_format := Some ''rgb'', opt_inGamut := JBool False\<rparr>"
  let ?f3 = "resolveFormat demoEnv 0 ''rgb''"
  have r3: "?f3 = resolveFormat demoEnv 0 (optFormat ?o3)"
    by (simp add: optFormat_def)
  have c3: "convertToFormatSpace demoEnv ?f3 0 1 demoHeap = (Inr 1, demoHeap)"
    by (simp add: demo_resolve demo_no_conversion convertToFormatSpace_def functionFormat_def
        js_return_def)
  note C6_inGamut_option [OF demo_getColor demo_space(2) r3 c3 demo_slice raw,
      THEN conjunct2, rule_format,
      where ?h4.0 = demoHeapCopied and cl = 4 and ?h5.0 = demoHeapCloned and g = 4
        and ?h6.0 = demoHeapMapped and selector = JUndefined
        and inG = "\<lambda>sp cs. list_all inUnit cs"]
  then have three: "serialize demoEnv (ColorRef 1) ?o3 demoHeap =
                      render demoEnv ?f3 ?o3 1 4 demoHeapMapped"
    using demo_check demo_clone demo_toGamut
    by (simp add: demo_mapped demo_resolve functionFormat_def)
  from one two three show ?thesis by simp
qed

text \<open>
  C6 as the specification states it fails: \<^verbatim>\<open>rgb\<close> has the \<^verbatim>\<open>toGamut\<close> default
  \<^verbatim>\<open>true\<close>, and with \<^verbatim>\<open>inGamut: false\<close> the coordinates are mapped into the gamut all
  the same, not written as they are.
\<close>

theorem C6_counterexample:
  "opt_inGamut (noOptions\<lparr>opt_format := Some ''rgb'', opt_inGamut := JBool False\<rparr>) = JBool False \<and>
   arrays demoHeap (coords (colors demoHeap 1)) = [JNum (6/5), JNum 0, JNum 0] \<and>
   fst (serialize demoEnv (ColorRef 1) (noOptions\<lparr>opt_format := Some ''rgb'', opt_inGamut := JBool False\<rparr>)
          demoHeap) = Inr ''rgb(1 0 0 / 0.5)'' \<and>
   fst (serialize demoEnv (ColorRef 1) (noOptions\<lparr>opt_format := Some ''rgb'', opt_inGamut := JBool False\<rparr>)
          demoHeap) \<noteq> Inr ''rgb(1.2 0 0 / 0.5)''"
  by (simp add: serialize_defs demo_defs run_defs)



section \<open>The input is left as it is\<close>






lemma preserves_bind_read:
  "preserves n h (js_bind (js_read g) f) Q = preserves n h (f (g h)) Q"
  by (simp add: preserves_def)


























end
